theory Spec2Isabelle
  imports Complex_Main "HOL-Library.Multiset"
begin

section \<open>Identifiers, JavaScript values and errors\<close>

text \<open>
  An \<open>ObjectId\<close> of the document store is a natural number.  A string that arrives where
  an identifier is expected is either the hexadecimal rendering of an ObjectId or some
  other string: \<open>WellFormed\<close> carries the ObjectId the string denotes, \<open>Malformed\<close>
  the string itself.  So \<open>toString\<close> followed by \<open>new Types.ObjectId\<close> is the identity,
  as in the library, and the lexical rule of well-formedness stays the library's own:
  \<open>Types.ObjectId.isValid\<close>, the constructor and the cast of the store are taken to accept
  the same strings.
\<close>

type_synonym objectId = nat

datatype idstr = WellFormed objectId | Malformed string

text \<open>
  The exceptions of the two services.  The texts of \<open>NotFoundException\<close> are those of the
  source with the diacritics dropped.  \<open>BSONError\<close> is thrown by \<open>new Types.ObjectId\<close>,
  \<open>CastError\<close> by the store when it casts an \<open>_id\<close> or a bound of a filter,
  \<open>ValidationError\<close> by the validators of the store on a document or an update;
  \<open>ServiceError\<close> and \<open>StorageError\<close> stand for what a collaborating service or the
  storage engine throws.
\<close>

datatype error =
    NotFoundException string
  | BSONError
  | CastError
  | ValidationError
  | ServiceError string
  | StorageError string

text \<open>A JavaScript number: a value, \<open>NaN\<close> or one of the two infinities.  Where the
  value is an integer (\<open>int jsnum\<close>) it is one that a double holds exactly; the operations
  below round to such values.  The zero of the doubles is a single value here.  The time of
  a \<open>Date\<close> is such a number too (milliseconds since the epoch, \<open>NaN\<close> for
  \<open>Invalid Date\<close>, never infinite).\<close>

datatype 'a jsnum = Num 'a | NaN | PlusInfinity | MinusInfinity

text \<open>A field of a page envelope: a number, or the raw string of the query where the
  source passes it through (\<open>q.page || 1\<close>).\<close>

datatype jsvalue = JNumber "int jsnum" | JString string

text \<open>\<open>Types.ObjectId.isValid\<close>, \<open>new Types.ObjectId(s)\<close>, \<open>oid.toString()\<close>, and the cast
  the store applies to the \<open>_id\<close> of a filter (\<open>findById\<close>, \<open>exists({_id})\<close>).\<close>

fun isValid :: "idstr \<Rightarrow> bool" where
  "isValid (WellFormed _) = True"
| "isValid (Malformed _) = False"

fun newObjectId :: "idstr \<Rightarrow> error + objectId" where
  "newObjectId (WellFormed oid) = Inr oid"
| "newObjectId (Malformed _) = Inl BSONError"

definition toString :: "objectId \<Rightarrow> idstr" where
  "toString oid = WellFormed oid"

fun castId :: "idstr \<Rightarrow> error + objectId" where
  "castId (WellFormed oid) = Inr oid"
| "castId (Malformed _) = Inl CastError"

text \<open>\<open>xs.map((id) => new Types.ObjectId(id))\<close>: the first malformed element throws.\<close>

fun mapObjectId :: "idstr list \<Rightarrow> error + objectId list" where
  "mapObjectId [] = Inr []"
| "mapObjectId (x # xs) =
     (case newObjectId x of
        Inl e \<Rightarrow> Inl e
      | Inr oid \<Rightarrow> (case mapObjectId xs of Inl e \<Rightarrow> Inl e | Inr oids \<Rightarrow> Inr (oid # oids)))"

text \<open>Truthiness of an identifier string and of an optional string: \<open>undefined\<close> and the
  empty string are falsy.\<close>

fun truthyId :: "idstr \<Rightarrow> bool" where
  "truthyId (WellFormed _) = True"
| "truthyId (Malformed s) = (s \<noteq> [])"

fun truthy :: "string option \<Rightarrow> bool" where
  "truthy None = False"
| "truthy (Some s) = (s \<noteq> [])"

section \<open>Documents\<close>

record chatRoom =
  r_id :: objectId
  r_name :: string
  r_participants :: "objectId list"
  r_isActive :: bool
  r_updatedAt :: int

record message =
  m_id :: objectId
  m_roomId :: objectId
  m_senderId :: objectId
  m_content :: string
  m_createdAt :: int

record pet =
  p_id :: objectId
  p_nome :: "string option"
  p_tutorId :: "objectId option"
  p_species :: "string option"

record provider =
  pr_id :: objectId
  pr_userId :: "objectId option"
  pr_name :: "string option"

record tutor =
  t_id :: objectId
  t_name :: "string option"
  t_userId :: "objectId option"

text \<open>The fields of an appointment besides its references and its date: the part of a
  creation input that \<open>create\<close> copies as it is (\<open>...dto\<close>).\<close>

record details =
  service :: "objectId option"
  duration :: "int option"
  reason :: "string option"
  location :: "string option"
  price :: "rat option"
  status :: "string option"
  a_notes :: "string option"
  email :: "string option"
  phone :: "string option"

record appointment = details +
  a_id :: objectId
  a_pet :: objectId
  a_provider :: objectId
  dateTime :: "int jsnum"
  isRated :: "bool option"
  createdAt :: int
  updatedAt :: int

section \<open>The store and the collaborators\<close>

datatype logEntry = LogError error | LogNoPets

text \<open>
  The state: one list per collection, in insertion order; the supply of fresh
  identifiers; the number of read queries issued on the appointment collection; and what
  was written to the console.
\<close>

record db =
  appointments :: "appointment list"
  pets :: "pet list"
  providers :: "provider list"
  tutors :: "tutor list"
  rooms :: "chatRoom list"
  messages :: "message list"
  nextId :: objectId
  apptReads :: nat
  console :: "logEntry list"

datatype sortSpec = SortField string | SortDateAsc | SortDateDescCreatedDesc

text \<open>
  What the services take from outside: the clock, the tutor, provider, pet and review
  services (each may throw), the parsers of the \<open>Date\<close> and \<open>Number\<close> constructors, the
  regular-expression engine of the store (no function for a pattern that does not
  compile), the store's sort, its answer to a \<open>skip\<close> or \<open>limit\<close> that is \<open>NaN\<close> or
  infinite, the local calendar of \<open>Date\<close>, and the values of the status enumeration of
  the appointment schema.
\<close>

record env =
  clock :: int
  tutorsFindById :: "idstr \<Rightarrow> error + tutor option"
  providersFindOneByUserId :: "idstr \<Rightarrow> error + provider option"
  petsFindAllByTutor :: "idstr \<Rightarrow> error + pet list"
  findReviewedAppointments :: "idstr \<Rightarrow> idstr list \<Rightarrow> error + idstr list"
  parseDate :: "string \<Rightarrow> int jsnum"
  toNumber :: "string \<Rightarrow> rat jsnum"
  regexCompile :: "string \<Rightarrow> (string \<Rightarrow> bool) option"
  sortDocs :: "sortSpec \<Rightarrow> appointment list \<Rightarrow> appointment list"
  nanPaging :: "appointment list \<Rightarrow> error + appointment list"
  getFullYear :: "int \<Rightarrow> int"
  getMonth :: "int \<Rightarrow> int"
  getDate :: "int \<Rightarrow> int"
  newDate3 :: "int \<Rightarrow> int \<Rightarrow> int \<Rightarrow> int"
  statusEnum :: "string list"

section \<open>The appointment schema\<close>

text \<open>Modelled from the spec: the appointment schema is not among the sources.  The spec
  gives an appointment a scheduled date-time, an enumerated status and the timestamps
  created/updated.  So the validators of the store accept a date that is not
  \<open>Invalid Date\<close> and a status, when there is one, of the enumeration (whose values are a
  parameter); and the store sets both timestamps when it creates a document and rewrites
  the updated one on every update.\<close>

definition validDate :: "int jsnum \<Rightarrow> bool" where
  "validDate d = (case d of Num _ \<Rightarrow> True | _ \<Rightarrow> False)"

definition validStatus :: "env \<Rightarrow> string option \<Rightarrow> bool" where
  "validStatus e st = (case st of None \<Rightarrow> True | Some v \<Rightarrow> v \<in> set (statusEnum e))"

section \<open>ChatService\<close>

text \<open>The default of \<open>isActive\<close> for a room created without it.

  Modelled from the spec: the chat-room schema is not among the sources; the spec resolves
  rooms among the active ones and has soft deactivation as the only removal, so a new room
  is active.\<close>

definition defaultIsActive :: bool where
  "defaultIsActive = True"

text \<open>The filter \<open>{ participants: { $all: ps }, isActive: true }\<close>; \<open>$all\<close> of an empty
  array matches no document.\<close>

definition matchesAllActive :: "objectId list \<Rightarrow> chatRoom \<Rightarrow> bool" where
  "matchesAllActive ps r \<longleftrightarrow> ps \<noteq> [] \<and> list_all (\<lambda>p. p \<in> set (r_participants r)) ps \<and> r_isActive r"

text \<open>\<open>chatRoomModel.create({ name, participants })\<close>: a fresh \<open>_id\<close>, the schema's default for
  \<open>isActive\<close>, the clock as timestamp.\<close>

definition insertRoom :: "env \<Rightarrow> string \<Rightarrow> objectId list \<Rightarrow> db \<Rightarrow> chatRoom \<times> db" where
  "insertRoom e nm ps s =
     (let room = \<lparr>r_id = nextId s, r_name = nm, r_participants = ps,
                  r_isActive = defaultIsActive, r_updatedAt = clock e\<rparr>
      in (room, s\<lparr>rooms := rooms s @ [room], nextId := Suc (nextId s)\<rparr>))"

definition getOrCreateRoomForParticipants ::
  "env \<Rightarrow> idstr list \<Rightarrow> string option \<Rightarrow> db \<Rightarrow> (error + chatRoom) \<times> db" where
  "getOrCreateRoomForParticipants e userIds name s =
     (case mapObjectId userIds of
        Inl err \<Rightarrow> (Inl err, s)
      | Inr participants \<Rightarrow>
          (case find (matchesAllActive participants) (rooms s) of
             Some existingRoom \<Rightarrow> (Inr existingRoom, s)
           | None \<Rightarrow>
               (let (room, s') =
                      insertRoom e (case name of Some n \<Rightarrow> n | None \<Rightarrow> ''Atendimento'')
                        participants s
                in (Inr room, s'))))"

text \<open>\<open>findById\<close> on the rooms, after the cast of the identifier.\<close>

definition findRoomById :: "objectId \<Rightarrow> db \<Rightarrow> chatRoom option" where
  "findRoomById oid s = find (\<lambda>r. r_id r = oid) (rooms s)"

text \<open>\<open>room.save()\<close>: the stored document with the room's \<open>_id\<close> takes the room's fields.\<close>

definition saveRoom :: "chatRoom \<Rightarrow> db \<Rightarrow> db" where
  "saveRoom room s = s\<lparr>rooms := map (\<lambda>r. if r_id r = r_id room then room else r) (rooms s)\<rparr>"

record sendMessageDto =
  roomId :: idstr
  content :: string

definition sendMessage :: "env \<Rightarrow> idstr \<Rightarrow> sendMessageDto \<Rightarrow> db \<Rightarrow> (error + message) \<times> db" where
  "sendMessage e senderId dto s =
     (if \<not> isValid (roomId dto) then (Inl (NotFoundException ''Sala nao encontrada''), s)
      else case castId (roomId dto) of
        Inl err \<Rightarrow> (Inl err, s)
      | Inr rid \<Rightarrow>
          (case findRoomById rid s of
             None \<Rightarrow> (Inl (NotFoundException ''Sala nao encontrada''), s)
           | Some room \<Rightarrow>
               (case newObjectId senderId of
                  Inl err \<Rightarrow> (Inl err, s)
                | Inr sender \<Rightarrow>
                    (let msg = \<lparr>m_id = nextId s, m_roomId = r_id room, m_senderId = sender,
                                m_content = content dto, m_createdAt = clock e\<rparr>;
                         s1 = s\<lparr>messages := messages s @ [msg], nextId := Suc (nextId s)\<rparr>;
                         s2 = saveRoom (room\<lparr>r_updatedAt := clock e\<rparr>) s1
                     in (Inr msg, s2)))))"

text \<open>\<open>find({ roomId }).sort({ createdAt: 1 })\<close>: the messages of the room, ascending by
  creation time (messages of equal time in insertion order).\<close>

definition getMessages :: "idstr \<Rightarrow> db \<Rightarrow> error + message list" where
  "getMessages rid s =
     (if \<not> isValid rid then Inr []
      else case newObjectId rid of
        Inl err \<Rightarrow> Inl err
      | Inr oid \<Rightarrow> Inr (sort_key m_createdAt (filter (\<lambda>m. m_roomId m = oid) (messages s))))"

section \<open>Query descriptions and the pagination plan\<close>

text \<open>Rounding an integer to the nearest double, ties to even: \<open>expOf n\<close> is the number
  of low bits that a magnitude \<open>n\<close> loses when it is cut to 53 bits, \<open>roundNat\<close> rounds
  the magnitude at that bit, and a rounded magnitude of \<open>2 ^ 1024\<close> or more (an exponent of
  972 or more) overflows to an infinity.\<close>

fun expOf :: "nat \<Rightarrow> nat" where
  "expOf n = (if n < 2 ^ 53 then 0 else Suc (expOf (n div 2)))"

declare expOf.simps [simp del]

definition roundNat :: "nat \<Rightarrow> nat" where
  "roundNat n =
     (let e = expOf n; q = n div 2 ^ e; r = n mod 2 ^ e
      in if 2 ^ e < 2 * r \<or> (2 * r = 2 ^ e \<and> odd q) then (q + 1) * 2 ^ e else q * 2 ^ e)"

definition roundToDouble :: "int \<Rightarrow> int jsnum" where
  "roundToDouble n =
     (let m = roundNat (nat \<bar>n\<bar>)
      in if 972 \<le> expOf m then (if n < 0 then MinusInfinity else PlusInfinity)
         else Num (if n < 0 then - int m else int m))"

text \<open>\<open>parseInt(s, 10)\<close>: leading white space is skipped, a sign is read, then the longest
  run of decimal digits; \<open>NaN\<close> when there is no digit, else the double nearest to the
  integer the digits denote (the language lets an engine replace the digits after the 20th
  by zeros before rounding; the rounding of the exact value is taken here).  A string is the list of its code units and a \<open>char\<close> holds a
  code unit below 256: of the white space that \<open>parseInt\<close> skips, those are the code units
  9 to 13, 32 and 160.\<close>

definition isWhite :: "char \<Rightarrow> bool" where
  "isWhite c \<longleftrightarrow> of_char c \<in> set [9, 10, 11, 12, 13, 32, 160 :: nat]"

definition isDigit :: "char \<Rightarrow> bool" where
  "isDigit c \<longleftrightarrow> 48 \<le> (of_char c :: nat) \<and> (of_char c :: nat) \<le> 57"

definition digitVal :: "char \<Rightarrow> int" where
  "digitVal c = int (of_char c) - 48"

definition digitsVal :: "string \<Rightarrow> int" where
  "digitsVal ds = foldl (\<lambda>acc c. 10 * acc + digitVal c) 0 ds"

definition parseInt :: "string \<Rightarrow> int jsnum" where
  "parseInt s =
     (let t = dropWhile isWhite s;
          neg = (t \<noteq> [] \<and> hd t = CHR ''-'');
          u = (if t \<noteq> [] \<and> (hd t = CHR ''-'' \<or> hd t = CHR ''+'') then tl t else t);
          ds = takeWhile isDigit u
      in if ds = [] then NaN
         else roundToDouble (if neg then - digitsVal ds else digitsVal ds))"

text \<open>\<open>Math.max\<close>, \<open>Math.min\<close>, \<open>-\<close> and \<open>*\<close> on doubles: \<open>NaN\<close> is contagious, the
  infinities follow the rules of the doubles, and a finite result is rounded.\<close>

fun mathMax :: "int jsnum \<Rightarrow> int jsnum \<Rightarrow> int jsnum" where
  "mathMax NaN _ = NaN"
| "mathMax _ NaN = NaN"
| "mathMax PlusInfinity _ = PlusInfinity"
| "mathMax _ PlusInfinity = PlusInfinity"
| "mathMax MinusInfinity b = b"
| "mathMax a MinusInfinity = a"
| "mathMax (Num a) (Num b) = Num (max a b)"

fun mathMin :: "int jsnum \<Rightarrow> int jsnum \<Rightarrow> int jsnum" where
  "mathMin NaN _ = NaN"
| "mathMin _ NaN = NaN"
| "mathMin MinusInfinity _ = MinusInfinity"
| "mathMin _ MinusInfinity = MinusInfinity"
| "mathMin PlusInfinity b = b"
| "mathMin a PlusInfinity = a"
| "mathMin (Num a) (Num b) = Num (min a b)"

fun jsMinus :: "int jsnum \<Rightarrow> int jsnum \<Rightarrow> int jsnum" where
  "jsMinus NaN _ = NaN"
| "jsMinus _ NaN = NaN"
| "jsMinus PlusInfinity PlusInfinity = NaN"
| "jsMinus MinusInfinity MinusInfinity = NaN"
| "jsMinus PlusInfinity _ = PlusInfinity"
| "jsMinus MinusInfinity _ = MinusInfinity"
| "jsMinus _ PlusInfinity = MinusInfinity"
| "jsMinus _ MinusInfinity = PlusInfinity"
| "jsMinus (Num a) (Num b) = roundToDouble (a - b)"

text \<open>The sign of a number that is not \<open>NaN\<close>, for the products with an infinity.\<close>

fun signOf :: "int jsnum \<Rightarrow> int" where
  "signOf (Num a) = sgn a"
| "signOf PlusInfinity = 1"
| "signOf MinusInfinity = - 1"
| "signOf NaN = 0"

fun jsTimes :: "int jsnum \<Rightarrow> int jsnum \<Rightarrow> int jsnum" where
  "jsTimes NaN _ = NaN"
| "jsTimes _ NaN = NaN"
| "jsTimes (Num a) (Num b) = roundToDouble (a * b)"
| "jsTimes a b =
     (if signOf a * signOf b = 0 then NaN
      else if 0 < signOf a * signOf b then PlusInfinity else MinusInfinity)"

text \<open>\<open>x || d\<close> for an optional string \<open>x\<close> and a string default, and for a numeric
  default (the raw string is passed through).\<close>

definition orDefault :: "string option \<Rightarrow> string \<Rightarrow> string" where
  "orDefault x d = (if truthy x then the x else d)"

definition orNumber :: "string option \<Rightarrow> int \<Rightarrow> jsvalue" where
  "orNumber x d = (if truthy x then JString (the x) else JNumber (Num d))"

datatype petArg = OnePet idstr | ManyPets "idstr list"

datatype statusArg = OneStatus string | ManyStatus "string list"

text \<open>\<open>QueryAppointmentDto\<close>: every field optional, as it arrives from the query string.\<close>

record query =
  q_provider :: "idstr option"
  q_pet :: "petArg option"
  q_status :: "statusArg option"
  q_q :: "string option"
  q_from :: "string option"
  q_to :: "string option"
  q_minPrice :: "string option"
  q_maxPrice :: "string option"
  q_page :: "string option"
  q_limit :: "string option"
  q_sort :: "string option"
  q_asc :: "string option"

text \<open>Lines 233 to 235 of \<open>findAll\<close>.\<close>

definition page_of :: "query \<Rightarrow> int jsnum" where
  "page_of q = mathMax (parseInt (orDefault (q_page q) ''1'')) (Num 1)"

definition limit_of :: "query \<Rightarrow> int jsnum" where
  "limit_of q = mathMin (mathMax (parseInt (orDefault (q_limit q) ''20'')) (Num 1)) (Num 100)"

definition skip_of :: "query \<Rightarrow> int jsnum" where
  "skip_of q = jsTimes (jsMinus (page_of q) (Num 1)) (limit_of q)"

definition sort_of :: "query \<Rightarrow> sortSpec" where
  "sort_of q =
     (if truthy (q_sort q) then SortField (the (q_sort q))
      else if q_asc q = Some ''true'' then SortDateAsc else SortDateDescCreatedDesc)"

section \<open>Filters and the appointment collection\<close>

datatype statusCond = StatusIn "string list" | StatusNin "string list" | StatusEq string

record 'a range =
  gte :: "'a jsnum option"
  lte :: "'a jsnum option"
  lt :: "'a jsnum option"

record apptFilter =
  f_provider :: "objectId option"
  f_pet :: "objectId list option"
  f_status :: "statusCond option"
  f_or :: "string option"
  f_dateTime :: "int range option"
  f_price :: "rat range option"

text \<open>\<open>s.split(',')\<close>.\<close>

fun split :: "char \<Rightarrow> string \<Rightarrow> string list" where
  "split c [] = [] # []"
| "split c (x # xs) =
     (if x = c then [] # split c xs
      else (case split c xs of y # ys \<Rightarrow> (x # y) # ys | [] \<Rightarrow> [x] # []))"

fun truthyPet :: "petArg option \<Rightarrow> bool" where
  "truthyPet None = False"
| "truthyPet (Some (OnePet i)) = truthyId i"
| "truthyPet (Some (ManyPets _)) = True"

fun petIdsOf :: "petArg \<Rightarrow> idstr list" where
  "petIdsOf (OnePet i) = [i]"
| "petIdsOf (ManyPets is) = is"

fun truthyStatus :: "statusArg option \<Rightarrow> bool" where
  "truthyStatus None = False"
| "truthyStatus (Some (OneStatus st)) = (st \<noteq> [])"
| "truthyStatus (Some (ManyStatus _)) = True"

fun statusArray :: "statusArg \<Rightarrow> string list" where
  "statusArray (ManyStatus sts) = sts"
| "statusArray (OneStatus st) = split CHR '','' st"

text \<open>The date and price parts of the filter (lines 220 to 231).\<close>

definition dateFilterOf :: "env \<Rightarrow> query \<Rightarrow> int range option" where
  "dateFilterOf e q =
     (if truthy (q_from q) \<or> truthy (q_to q)
      then Some \<lparr>gte = (if truthy (q_from q) then Some (parseDate e (the (q_from q))) else None),
                 lte = (if truthy (q_to q) then Some (parseDate e (the (q_to q))) else None),
                 lt = None\<rparr>
      else None)"

definition priceFilterOf :: "env \<Rightarrow> query \<Rightarrow> rat range option" where
  "priceFilterOf e q =
     (if truthy (q_minPrice q) \<or> truthy (q_maxPrice q)
      then Some \<lparr>gte = (if truthy (q_minPrice q) then Some (toNumber e (the (q_minPrice q))) else None),
                 lte = (if truthy (q_maxPrice q) then Some (toNumber e (the (q_maxPrice q))) else None),
                 lt = None\<rparr>
      else None)"

text \<open>Lines 196 to 231 of \<open>findAll\<close>: the provider is converted first, then the pets; a
  malformed identifier throws out of the constructor.\<close>

definition buildFilter :: "env \<Rightarrow> query \<Rightarrow> error + apptFilter" where
  "buildFilter e q =
     (case (case q_provider q of
              None \<Rightarrow> Inr None
            | Some p \<Rightarrow> if truthyId p then map_sum id Some (newObjectId p) else Inr None) of
        Inl err \<Rightarrow> Inl err
      | Inr fprovider \<Rightarrow>
          (case (if truthyPet (q_pet q)
                 then map_sum id Some (mapObjectId (petIdsOf (the (q_pet q)))) else Inr None) of
             Inl err \<Rightarrow> Inl err
           | Inr fpet \<Rightarrow>
               Inr \<lparr>f_provider = fprovider,
                    f_pet = fpet,
                    f_status = (if truthyStatus (q_status q)
                                then Some (StatusIn (statusArray (the (q_status q)))) else None),
                    f_or = (if truthy (q_q q) then q_q q else None),
                    f_dateTime = dateFilterOf e q,
                    f_price = priceFilterOf e q\<rparr>))"

text \<open>What the store does with a filter.  It refuses a bound that is \<open>NaN\<close> (the cast of
  a date or number path) and a pattern that does not compile.\<close>

definition nanBound :: "'a range option \<Rightarrow> bool" where
  "nanBound r \<longleftrightarrow> (case r of None \<Rightarrow> False
                  | Some b \<Rightarrow> gte b = Some NaN \<or> lte b = Some NaN \<or> lt b = Some NaN)"

definition rejected :: "env \<Rightarrow> apptFilter \<Rightarrow> error option" where
  "rejected e f =
     (if nanBound (f_dateTime f) \<or> nanBound (f_price f) then Some CastError
      else case f_or f of
        None \<Rightarrow> None
      | Some pat \<Rightarrow> (case regexCompile e pat of
                      None \<Rightarrow> Some (StorageError ''invalid regular expression'')
                    | Some _ \<Rightarrow> None))"

fun above :: "('a::linorder) jsnum option \<Rightarrow> 'a \<Rightarrow> bool" where
  "above None v = True"
| "above (Some (Num b)) v = (b \<le> v)"
| "above (Some NaN) v = False"
| "above (Some PlusInfinity) v = False"
| "above (Some MinusInfinity) v = True"

fun below :: "('a::linorder) jsnum option \<Rightarrow> 'a \<Rightarrow> bool" where
  "below None v = True"
| "below (Some (Num b)) v = (v \<le> b)"
| "below (Some NaN) v = False"
| "below (Some PlusInfinity) v = True"
| "below (Some MinusInfinity) v = False"

fun strictlyBelow :: "('a::linorder) jsnum option \<Rightarrow> 'a \<Rightarrow> bool" where
  "strictlyBelow None v = True"
| "strictlyBelow (Some (Num b)) v = (v < b)"
| "strictlyBelow (Some NaN) v = False"
| "strictlyBelow (Some PlusInfinity) v = True"
| "strictlyBelow (Some MinusInfinity) v = False"

definition inRange :: "('a::linorder) range \<Rightarrow> 'a \<Rightarrow> bool" where
  "inRange r v \<longleftrightarrow> above (gte r) v \<and> below (lte r) v \<and> strictlyBelow (lt r) v"

text \<open>\<open>$in\<close> and equality need the field; \<open>$nin\<close> also matches a document without it.\<close>

fun statusMatches :: "statusCond \<Rightarrow> string option \<Rightarrow> bool" where
  "statusMatches (StatusIn sts) None = False"
| "statusMatches (StatusIn sts) (Some st) = (st \<in> set sts)"
| "statusMatches (StatusNin sts) None = True"
| "statusMatches (StatusNin sts) (Some st) = (st \<notin> set sts)"
| "statusMatches (StatusEq st') None = False"
| "statusMatches (StatusEq st') (Some st) = (st = st')"

definition regexField :: "env \<Rightarrow> string \<Rightarrow> string option \<Rightarrow> bool" where
  "regexField e pat v =
     (case v of None \<Rightarrow> False
      | Some txt \<Rightarrow> (case regexCompile e pat of None \<Rightarrow> False | Some test \<Rightarrow> test txt))"

definition matches :: "env \<Rightarrow> apptFilter \<Rightarrow> appointment \<Rightarrow> bool" where
  "matches e f a \<longleftrightarrow>
     (case f_provider f of None \<Rightarrow> True | Some p \<Rightarrow> a_provider a = p) \<and>
     (case f_pet f of None \<Rightarrow> True | Some ps \<Rightarrow> a_pet a \<in> set ps) \<and>
     (case f_status f of None \<Rightarrow> True | Some c \<Rightarrow> statusMatches c (status a)) \<and>
     (case f_or f of None \<Rightarrow> True
      | Some pat \<Rightarrow> regexField e pat (reason a) \<or> regexField e pat (location a)
                    \<or> regexField e pat (a_notes a)) \<and>
     (case f_dateTime f of None \<Rightarrow> True
      | Some r \<Rightarrow> (case dateTime a of Num t \<Rightarrow> inRange r t | _ \<Rightarrow> False)) \<and>
     (case f_price f of None \<Rightarrow> True
      | Some r \<Rightarrow> (case price a of None \<Rightarrow> False | Some v \<Rightarrow> inRange r v))"

text \<open>\<open>skip(sk).limit(li)\<close> on the sorted matches.  \<open>findAll\<close> passes a \<open>skip\<close> of at
  least 0 and a \<open>limit\<close> between 1 and 100 whenever they are finite numbers; what the
  store answers otherwise is its own affair.\<close>

definition pageSlice :: "env \<Rightarrow> int jsnum \<Rightarrow> int jsnum \<Rightarrow> appointment list \<Rightarrow> error + appointment list" where
  "pageSlice e sk li xs =
     (case (sk, li) of
        (Num k, Num l) \<Rightarrow> Inr (take (nat l) (drop (nat k) xs))
      | _ \<Rightarrow> nanPaging e xs)"

text \<open>The two read queries on the appointment collection; each one is counted.\<close>

definition findDocs ::
  "env \<Rightarrow> apptFilter \<Rightarrow> sortSpec \<Rightarrow> int jsnum \<Rightarrow> int jsnum \<Rightarrow> db \<Rightarrow> (error + appointment list) \<times> db" where
  "findDocs e f srt sk li s =
     (case rejected e f of
        Some err \<Rightarrow> Inl err
      | None \<Rightarrow> pageSlice e sk li (sortDocs e srt (filter (matches e f) (appointments s))),
      s\<lparr>apptReads := Suc (apptReads s)\<rparr>)"

definition countDocuments :: "env \<Rightarrow> apptFilter \<Rightarrow> db \<Rightarrow> (error + nat) \<times> db" where
  "countDocuments e f s =
     (case rejected e f of
        Some err \<Rightarrow> Inl err
      | None \<Rightarrow> Inr (length (filter (matches e f) (appointments s))),
      s\<lparr>apptReads := Suc (apptReads s)\<rparr>)"

text \<open>\<open>populate\<close>: the pet of the appointment with its tutor, and the provider.\<close>

record item =
  doc :: appointment
  petDoc :: "pet option"
  tutorDoc :: "tutor option"
  providerDoc :: "provider option"

definition populate :: "db \<Rightarrow> appointment \<Rightarrow> item" where
  "populate s a =
     (let p = find (\<lambda>p. p_id p = a_pet a) (pets s)
      in \<lparr>doc = a,
          petDoc = p,
          tutorDoc = (case p of None \<Rightarrow> None
                      | Some p' \<Rightarrow> (case p_tutorId p' of None \<Rightarrow> None
                                   | Some t \<Rightarrow> find (\<lambda>tu. t_id tu = t) (tutors s))),
          providerDoc = find (\<lambda>pr. pr_id pr = a_provider a) (providers s)\<rparr>)"

record reviewedItem = item +
  isReviewed :: bool

record 'a envelope =
  items :: "'a list"
  total :: nat
  page :: jsvalue
  limit :: jsvalue
  pages :: jsvalue

text \<open>\<open>Math.ceil(total / limit)\<close>.  The limit of \<open>findAll\<close> is between 1 and 100 or
  \<open>NaN\<close>; for a total below \<open>2 ^ 51\<close> the quotient of the doubles has the ceiling of
  the exact quotient.\<close>

fun ceilDiv :: "nat \<Rightarrow> int jsnum \<Rightarrow> int jsnum" where
  "ceilDiv n (Num l) = (if l \<le> 0 then NaN else Num (- ((- int n) div l)))"
| "ceilDiv n NaN = NaN"
| "ceilDiv n PlusInfinity = Num 0"
| "ceilDiv n MinusInfinity = Num 0"

section \<open>AppointmentsService\<close>

text \<open>\<open>findAll\<close>: the filter is built (a malformed identifier throws here, before any
  query), then the page and the count are both requested (\<open>Promise.all\<close>) and the
  envelope is assembled when both have answered.\<close>

definition findAll :: "env \<Rightarrow> query \<Rightarrow> db \<Rightarrow> (error + item envelope) \<times> db" where
  "findAll e q s =
     (case buildFilter e q of
        Inl err \<Rightarrow> (Inl err, s)
      | Inr flt \<Rightarrow>
          (let (found, s1) = findDocs e flt (sort_of q) (skip_of q) (limit_of q) s;
               (counted, s2) = countDocuments e flt s1
           in case found of
                Inl err \<Rightarrow> (Inl err, s2)
              | Inr docs \<Rightarrow>
                  (case counted of
                     Inl err \<Rightarrow> (Inl err, s2)
                   | Inr n \<Rightarrow>
                       (Inr \<lparr>items = map (populate s) docs, total = n,
                             page = JNumber (page_of q), limit = JNumber (limit_of q),
                             pages = JNumber (ceilDiv n (limit_of q))\<rparr>, s2))))"

definition findAllByProviderUser ::
  "env \<Rightarrow> idstr \<Rightarrow> query \<Rightarrow> db \<Rightarrow> (error + item envelope) \<times> db" where
  "findAllByProviderUser e userId q s =
     (case providersFindOneByUserId e userId of
        Inl err \<Rightarrow> (Inl err, s)
      | Inr None \<Rightarrow>
          (Inr \<lparr>items = [], total = 0, page = JNumber (Num 1),
                limit = orNumber (q_limit q) 20, pages = JNumber (Num 1)\<rparr>, s)
      | Inr (Some prov) \<Rightarrow> findAll e (q\<lparr>q_provider := Some (toString (pr_id prov))\<rparr>) s)"

text \<open>Step 4 of \<open>findAllByTutorId\<close>: the item with its \<open>isReviewed\<close> flag.\<close>

definition withReviewStatus :: "idstr list \<Rightarrow> item \<Rightarrow> reviewedItem" where
  "withReviewStatus reviewedIds it =
     \<lparr>doc = doc it, petDoc = petDoc it, tutorDoc = tutorDoc it, providerDoc = providerDoc it,
      isReviewed = (toString (a_id (doc it)) \<in> set reviewedIds)\<rparr>"

definition findAllByTutorId ::
  "env \<Rightarrow> idstr \<Rightarrow> query \<Rightarrow> db \<Rightarrow> (error + reviewedItem envelope) \<times> db" where
  "findAllByTutorId e tutorId q s =
     (case petsFindAllByTutor e tutorId of
        Inl err \<Rightarrow> (Inl err, s)
      | Inr ps \<Rightarrow>
          if length ps = 0
          then (Inr \<lparr>items = [], total = 0, page = orNumber (q_page q) 1,
                     limit = orNumber (q_limit q) 20, pages = JNumber (Num 0)\<rparr>,
                s\<lparr>console := console s @ [LogNoPets]\<rparr>)
          else
            (let petIds = map (\<lambda>p. toString (p_id p)) ps;
                 petQuery = q\<lparr>q_pet := Some (ManyPets petIds)\<rparr>;
                 (res, s1) = findAll e petQuery s
             in case res of
                  Inl err \<Rightarrow> (Inl err, s1)
                | Inr result \<Rightarrow>
                    (let appointmentIds = map (\<lambda>a. toString (a_id (doc a))) (items result)
                     in case findReviewedAppointments e tutorId appointmentIds of
                          Inl err \<Rightarrow> (Inl err, s1)
                        | Inr reviewedIds \<Rightarrow>
                            (Inr \<lparr>items = map (withReviewStatus reviewedIds) (items result),
                                  total = total result, page = page result,
                                  limit = limit result, pages = pages result\<rparr>, s1))))"

text \<open>The existence guards: \<open>exists({ _id: id })\<close> casts the identifier, then looks.\<close>

definition assertPet :: "idstr \<Rightarrow> db \<Rightarrow> error + unit" where
  "assertPet i s =
     (case castId i of
        Inl err \<Rightarrow> Inl err
      | Inr oid \<Rightarrow> (case find (\<lambda>p. p_id p = oid) (pets s) of
                     None \<Rightarrow> Inl (NotFoundException ''Pet nao encontrado.'')
                   | Some _ \<Rightarrow> Inr ()))"

definition assertProvider :: "idstr \<Rightarrow> db \<Rightarrow> error + unit" where
  "assertProvider i s =
     (case castId i of
        Inl err \<Rightarrow> Inl err
      | Inr oid \<Rightarrow> (case find (\<lambda>p. pr_id p = oid) (providers s) of
                     None \<Rightarrow> Inl (NotFoundException ''Prestador nao encontrado.'')
                   | Some _ \<Rightarrow> Inr ()))"

record createAppointmentDto = details +
  dto_pet :: idstr
  dto_provider :: idstr
  dto_dateTime :: string

text \<open>\<open>tutor?.userId?.toString()\<close> after \<open>tutorsService.findById\<close>, for a pet that has a
  \<open>tutorId\<close>; \<open>undefined\<close> otherwise.\<close>

definition tutorUserIdOf :: "env \<Rightarrow> pet option \<Rightarrow> error + idstr option" where
  "tutorUserIdOf e p =
     (case p of
        None \<Rightarrow> Inr None
      | Some p' \<Rightarrow>
          (case p_tutorId p' of
             None \<Rightarrow> Inr None
           | Some t \<Rightarrow>
               (case tutorsFindById e (toString t) of
                  Inl err \<Rightarrow> Inl err
                | Inr None \<Rightarrow> Inr None
                | Inr (Some tu) \<Rightarrow> Inr (map_option toString (t_userId tu)))))"

text \<open>The body of the \<open>try\<close> block of \<open>create\<close> (lines 85 to 110).\<close>

definition provisionRoom :: "env \<Rightarrow> createAppointmentDto \<Rightarrow> db \<Rightarrow> (error + unit) \<times> db" where
  "provisionRoom e dto s =
     (case castId (dto_pet dto) of
        Inl err \<Rightarrow> (Inl err, s)
      | Inr petOid \<Rightarrow>
          (case castId (dto_provider dto) of
             Inl err \<Rightarrow> (Inl err, s)
           | Inr provOid \<Rightarrow>
               (let p = find (\<lambda>p. p_id p = petOid) (pets s);
                    prov = find (\<lambda>p. pr_id p = provOid) (providers s)
                in case tutorUserIdOf e p of
                     Inl err \<Rightarrow> (Inl err, s)
                   | Inr tutorUserId \<Rightarrow>
                       (case (Option.bind prov pr_userId, tutorUserId) of
                          (Some provUser, Some tutorUser) \<Rightarrow>
                            (let (r, s') =
                                   getOrCreateRoomForParticipants e [toString provUser, tutorUser]
                                     (Some (''Atendimento - '' @
                                        (case Option.bind p p_nome of Some n \<Rightarrow> n | None \<Rightarrow> ''Pet'')))
                                     s
                             in (map_sum id (\<lambda>_. ()) r, s'))
                        | _ \<Rightarrow> (Inr (), s)))))"

text \<open>\<open>create\<close>: the guards, the write, then the \<open>try\<close> block whose error is logged and
  dropped.  The write (\<open>model.create\<close>, outside the \<open>try\<close>) throws when the validators
  of the store refuse the document.\<close>

definition create :: "env \<Rightarrow> createAppointmentDto \<Rightarrow> db \<Rightarrow> (error + appointment) \<times> db" where
  "create e dto s =
     (case assertPet (dto_pet dto) s of
        Inl err \<Rightarrow> (Inl err, s)
      | Inr _ \<Rightarrow>
     (case assertProvider (dto_provider dto) s of
        Inl err \<Rightarrow> (Inl err, s)
      | Inr _ \<Rightarrow>
     (case newObjectId (dto_pet dto) of
        Inl err \<Rightarrow> (Inl err, s)
      | Inr petOid \<Rightarrow>
     (case newObjectId (dto_provider dto) of
        Inl err \<Rightarrow> (Inl err, s)
      | Inr provOid \<Rightarrow>
          (let created =
                 \<lparr>service = service dto, duration = duration dto, reason = reason dto,
                  location = location dto, price = price dto, status = status dto,
                  a_notes = a_notes dto, email = email dto, phone = phone dto,
                  a_id = nextId s, a_pet = petOid, a_provider = provOid,
                  dateTime = parseDate e (dto_dateTime dto), isRated = None,
                  createdAt = clock e, updatedAt = clock e\<rparr>
           in if \<not> (validDate (dateTime created) \<and> validStatus e (status created))
              then (Inl ValidationError, s)
              else
                (let s1 = s\<lparr>appointments := appointments s @ [created],
                            nextId := Suc (nextId s)\<rparr>;
                     (r, s2) = provisionRoom e dto s1
                 in (Inr created,
                     case r of
                       Inl err \<Rightarrow> s2\<lparr>console := console s2 @ [LogError err]\<rparr>
                     | Inr _ \<Rightarrow> s2)))))))"

record counts =
  c_total :: nat
  c_confirmed :: nat

text \<open>The local-day window of \<open>countAppointmentsForToday\<close>.\<close>

definition startOfToday :: "env \<Rightarrow> int" where
  "startOfToday e =
     (let now = clock e in newDate3 e (getFullYear e now) (getMonth e now) (getDate e now))"

definition endOfToday :: "env \<Rightarrow> int" where
  "endOfToday e =
     (let now = clock e in newDate3 e (getFullYear e now) (getMonth e now) (getDate e now + 1))"

definition countAppointmentsForToday :: "env \<Rightarrow> idstr \<Rightarrow> db \<Rightarrow> (error + counts) \<times> db" where
  "countAppointmentsForToday e providerId s =
     (case newObjectId providerId of
        Inl err \<Rightarrow> (Inl err, s)
      | Inr providerObjId \<Rightarrow>
          (let dateFilter = \<lparr>gte = Some (Num (startOfToday e)), lte = None,
                             lt = Some (Num (endOfToday e))\<rparr>;
               totalFilter = \<lparr>f_provider = Some providerObjId, f_pet = None,
                              f_status = Some (StatusNin [''cancelled'', ''completed'']),
                              f_or = None, f_dateTime = Some dateFilter, f_price = None\<rparr>;
               confirmedFilter = \<lparr>f_provider = Some providerObjId, f_pet = None,
                                  f_status = Some (StatusEq ''confirmed''),
                                  f_or = None, f_dateTime = Some dateFilter, f_price = None\<rparr>;
               (r1, s1) = countDocuments e totalFilter s;
               (r2, s2) = countDocuments e confirmedFilter s1
           in case r1 of
                Inl err \<Rightarrow> (Inl err, s2)
              | Inr n \<Rightarrow> (case r2 of
                            Inl err \<Rightarrow> (Inl err, s2)
                          | Inr c \<Rightarrow> (Inr \<lparr>c_total = n, c_confirmed = c\<rparr>, s2))))"

datatype statusUpdate = SetIsRated bool | SetStatus string

text \<open>\<open>{ $set: updateData }\<close> on one document.\<close>

fun applySet :: "statusUpdate \<Rightarrow> appointment \<Rightarrow> appointment" where
  "applySet (SetIsRated b) a = a\<lparr>isRated := Some b\<rparr>"
| "applySet (SetStatus st) a = a\<lparr>status := Some st\<rparr>"

text \<open>The first document that satisfies \<open>P\<close> is replaced by its image.\<close>

fun updateFirst :: "('a \<Rightarrow> bool) \<Rightarrow> ('a \<Rightarrow> 'a) \<Rightarrow> 'a list \<Rightarrow> 'a list" where
  "updateFirst P f [] = []"
| "updateFirst P f (x # xs) = (if P x then f x # xs else x # updateFirst P f xs)"

text \<open>\<open>runValidators: true\<close>: the validators of the fields that the update sets.\<close>

fun validUpdate :: "env \<Rightarrow> statusUpdate \<Rightarrow> bool" where
  "validUpdate e (SetIsRated b) = True"
| "validUpdate e (SetStatus st) = validStatus e (Some st)"

text \<open>\<open>findByIdAndUpdate\<close>: the identifier is cast, the update is validated, then the first
  document with the identifier takes the update and a new \<open>updatedAt\<close>; without such a
  document the answer is \<open>null\<close> and the service throws.\<close>

definition updateAppointmentStatus ::
  "env \<Rightarrow> idstr \<Rightarrow> statusUpdate \<Rightarrow> db \<Rightarrow> (error + unit) \<times> db" where
  "updateAppointmentStatus e i updateData s =
     (case castId i of
        Inl err \<Rightarrow> (Inl err, s)
      | Inr oid \<Rightarrow>
          if \<not> validUpdate e updateData then (Inl ValidationError, s)
          else
            (case find (\<lambda>a. a_id a = oid) (appointments s) of
               None \<Rightarrow>
                 (Inl (NotFoundException
                         ''Agendamento nao encontrado para atualizacao de status.''), s)
             | Some _ \<Rightarrow>
                 (Inr (), s\<lparr>appointments :=
                             updateFirst (\<lambda>a. a_id a = oid)
                               (\<lambda>a. (applySet updateData a)\<lparr>updatedAt := clock e\<rparr>)
                               (appointments s)\<rparr>)))"

section \<open>Concrete inputs\<close>

text \<open>
  A small world on which the operations are evaluated: a tutor (20, user 30) with the pet
  Rex (10), a pet without tutor (11), a provider with a user (40, user 31) and one without
  (41), and four appointments of provider 40 around the third of January 1970 (UTC):
  one confirmed on that day, one cancelled on that day, one pending at the last second of
  the day before and one confirmed at the first instant of the day after.
\<close>

definition exampleTutor :: tutor where
  "exampleTutor = \<lparr>t_id = 20, t_name = Some ''Ana'', t_userId = Some 30\<rparr>"

definition examplePets :: "pet list" where
  "examplePets =
     [\<lparr>p_id = 10, p_nome = Some ''Rex'', p_tutorId = Some 20, p_species = Some ''dog''\<rparr>,
      \<lparr>p_id = 11, p_nome = None, p_tutorId = None, p_species = None\<rparr>]"

definition exampleProviders :: "provider list" where
  "exampleProviders =
     [\<lparr>pr_id = 40, pr_userId = Some 31, pr_name = Some ''Clinica''\<rparr>,
      \<lparr>pr_id = 41, pr_userId = None, pr_name = None\<rparr>]"

definition exampleAppointment :: "objectId \<Rightarrow> int \<Rightarrow> string \<Rightarrow> appointment" where
  "exampleAppointment i t st =
     \<lparr>service = None, duration = Some 30, reason = Some ''vaccine'', location = None,
      price = Some 50, status = Some st, a_notes = None, email = None, phone = None,
      a_id = i, a_pet = 10, a_provider = 40, dateTime = Num t, isRated = None,
      createdAt = 0, updatedAt = 0\<rparr>"

definition exampleDb :: db where
  "exampleDb =
     \<lparr>appointments = [exampleAppointment 100 180000000 ''confirmed'',
                      exampleAppointment 101 190000000 ''cancelled'',
                      exampleAppointment 102 172799000 ''pending'',
                      exampleAppointment 103 259200000 ''confirmed''],
      pets = examplePets, providers = exampleProviders, tutors = [exampleTutor],
      rooms = [], messages = [], nextId = 200, apptReads = 0, console = []\<rparr>"

text \<open>The sort of the example: by date, and by date and creation time descending, as a
  stable sort has them; by the fields \<open>dateTime\<close> and \<open>createdAt\<close> when they are named, any
  other name leaving the order as it is.\<close>

definition dateMs :: "appointment \<Rightarrow> int" where
  "dateMs a = (case dateTime a of Num t \<Rightarrow> t | _ \<Rightarrow> 0)"

fun exampleSort :: "sortSpec \<Rightarrow> appointment list \<Rightarrow> appointment list" where
  "exampleSort SortDateAsc xs = sort_key dateMs xs"
| "exampleSort SortDateDescCreatedDesc xs =
     sort_key (\<lambda>a. - dateMs a) (sort_key (\<lambda>a. - createdAt a) xs)"
| "exampleSort (SortField f) xs =
     (if f = ''dateTime'' then sort_key dateMs xs
      else if f = ''createdAt'' then sort_key createdAt xs else xs)"

text \<open>The pattern engine of the example: it compiles the patterns made of letters, digits
  and spaces only, which match the texts that contain them, letter case apart.\<close>

definition isLetter :: "char \<Rightarrow> bool" where
  "isLetter c \<longleftrightarrow> (65 \<le> (of_char c :: nat) \<and> (of_char c :: nat) \<le> 90)
                 \<or> (97 \<le> (of_char c :: nat) \<and> (of_char c :: nat) \<le> 122)"

definition lowerChar :: "char \<Rightarrow> char" where
  "lowerChar c = (if 65 \<le> (of_char c :: nat) \<and> (of_char c :: nat) \<le> 90
                  then char_of (of_char c + 32 :: nat) else c)"

fun containsStr :: "string \<Rightarrow> string \<Rightarrow> bool" where
  "containsStr pat [] = (pat = [])"
| "containsStr pat (c # cs) = (take (length pat) (c # cs) = pat \<or> containsStr pat cs)"

definition exampleRegex :: "string \<Rightarrow> (string \<Rightarrow> bool) option" where
  "exampleRegex pat =
     (if list_all (\<lambda>c. isLetter c \<or> isDigit c \<or> c = CHR '' '') pat
      then Some (\<lambda>txt. containsStr (map lowerChar pat) (map lowerChar txt))
      else None)"

text \<open>The collaborators of the example.  The calendar is the UTC one of January 1970,
  where the clock stands (the third, one o'clock); of the date strings the parser knows the
  one of the examples, two o'clock of that day, and takes any other for unparseable; of the
  numbers it knows the strings of digits; the status enumeration is the one the spec
  names.\<close>

definition exampleEnv :: env where
  "exampleEnv =
     \<lparr>clock = 176400000,
      tutorsFindById = (\<lambda>i. if i = WellFormed 20 then Inr (Some exampleTutor)
                            else Inl (NotFoundException ''Tutor nao encontrado'')),
      providersFindOneByUserId = (\<lambda>i. if i = WellFormed 31 then Inr (Some (hd exampleProviders))
                                      else Inr None),
      petsFindAllByTutor = (\<lambda>i. if i = WellFormed 20 then Inr [hd examplePets] else Inr []),
      findReviewedAppointments = (\<lambda>author ids. Inr (filter (\<lambda>i. i = WellFormed 100) ids)),
      parseDate = (\<lambda>str. if str = ''1970-01-03T02:00:00.000Z'' then Num 180000000 else NaN),
      toNumber = (\<lambda>str. if str \<noteq> [] \<and> list_all isDigit str
                        then Num (of_int (digitsVal str)) else NaN),
      regexCompile = exampleRegex,
      sortDocs = exampleSort,
      nanPaging = (\<lambda>xs. Inl (StorageError ''skip or limit is not a number'')),
      getFullYear = (\<lambda>t. 1970),
      getMonth = (\<lambda>t. 0),
      getDate = (\<lambda>t. t div 86400000 + 1),
      newDate3 = (\<lambda>y m d. (d - 1) * 86400000),
      statusEnum = [''pending'', ''confirmed'', ''cancelled'', ''completed'']\<rparr>"

definition emptyQuery :: query where
  "emptyQuery =
     \<lparr>q_provider = None, q_pet = None, q_status = None, q_q = None, q_from = None,
      q_to = None, q_minPrice = None, q_maxPrice = None, q_page = None, q_limit = None,
      q_sort = None, q_asc = None\<rparr>"

definition exampleDto :: "objectId \<Rightarrow> objectId \<Rightarrow> createAppointmentDto" where
  "exampleDto petOid provOid =
     \<lparr>service = None, duration = Some 30, reason = Some ''vaccine'', location = None,
      price = Some 50, status = Some ''pending'', a_notes = None, email = None, phone = None,
      dto_pet = WellFormed petOid, dto_provider = WellFormed provOid,
      dto_dateTime = ''1970-01-03T02:00:00.000Z''\<rparr>"

text \<open>The example with one chat room (300, between the users 31 and 30) and three of its
  messages stored out of the order of their creation times, and one message of another
  room.\<close>

definition exampleMessage :: "objectId \<Rightarrow> objectId \<Rightarrow> int \<Rightarrow> message" where
  "exampleMessage i r t =
     \<lparr>m_id = i, m_roomId = r, m_senderId = 30, m_content = ''oi'', m_createdAt = t\<rparr>"

definition exampleChatDb :: db where
  "exampleChatDb =
     exampleDb\<lparr>rooms := [\<lparr>r_id = 300, r_name = ''Atendimento'', r_participants = [31, 30],
                           r_isActive = True, r_updatedAt = 0\<rparr>],
               messages := [exampleMessage 400 300 30, exampleMessage 401 300 10,
                            exampleMessage 402 301 5, exampleMessage 403 300 20]\<rparr>"

section \<open>Chat rooms: resolution and messages\<close>

lemma find_append_new:
  "find P xs = None \<Longrightarrow> P x \<Longrightarrow> find P (xs @ [x]) = Some x"
  by (induction xs) (auto split: if_splits)

lemma mapObjectId_length: "mapObjectId is = Inr ps \<Longrightarrow> length ps = length is"
  by (induction "is" arbitrary: ps) (auto split: sum.splits)

lemma mapObjectId_cases:
  "(list_all isValid is \<longrightarrow> (\<exists>ps. mapObjectId is = Inr ps))
   \<and> (\<not> list_all isValid is \<longrightarrow> mapObjectId is = Inl BSONError)"
proof (induction "is")
  case Nil
  then show ?case by simp
next
  case (Cons i "is")
  then show ?case by (cases i) (auto split: sum.splits)
qed

text \<open>A second resolution of the same non-empty list of participants, on the state the
  first one left, gives the first one's answer and leaves the state as it is.\<close>

lemma getOrCreate_again:
  assumes "userIds \<noteq> []"
  shows "getOrCreateRoomForParticipants e2 userIds n2
           (snd (getOrCreateRoomForParticipants e1 userIds n1 s))
         = getOrCreateRoomForParticipants e1 userIds n1 s"
proof (cases "mapObjectId userIds")
  case (Inl err)
  then show ?thesis by (simp add: getOrCreateRoomForParticipants_def)
next
  case (Inr ps)
  with assms have ne: "ps \<noteq> []" using mapObjectId_length by fastforce
  show ?thesis
  proof (cases "find (matchesAllActive ps) (rooms s)")
    case (Some r)
    with Inr show ?thesis by (simp add: getOrCreateRoomForParticipants_def)
  next
    case None
    let ?nm = "case n1 of Some n \<Rightarrow> n | None \<Rightarrow> ''Atendimento''"
    let ?room = "fst (insertRoom e1 ?nm ps s)"
    have m: "matchesAllActive ps ?room"
      using ne
      by (simp add: matchesAllActive_def insertRoom_def Let_def defaultIsActive_def list_all_iff)
    have rs: "rooms (snd (insertRoom e1 ?nm ps s)) = rooms s @ [?room]"
      by (simp add: insertRoom_def Let_def)
    have "find (matchesAllActive ps) (rooms (snd (insertRoom e1 ?nm ps s))) = Some ?room"
      unfolding rs using None m by (rule find_append_new)
    with Inr None show ?thesis
      by (simp add: getOrCreateRoomForParticipants_def split_beta)
  qed
qed

text \<open>
  Claim C6.  For every pair of participant identifiers \<open>[a, b]\<close>, a second call of
  \<open>getOrCreateRoomForParticipants\<close> on the state left by the first (nothing deactivated in
  between; the clock and the name may differ) returns what the first call returned and
  changes nothing: no second room is created.  When both identifiers are well formed, what
  the first call returns is a room, active and holding both participants.
\<close>

theorem getOrCreateRoomForParticipants_twice:
  "getOrCreateRoomForParticipants e2 [a, b] n2
     (snd (getOrCreateRoomForParticipants e1 [a, b] n1 s))
   = getOrCreateRoomForParticipants e1 [a, b] n1 s
   \<and> (\<exists>room. fst (getOrCreateRoomForParticipants e1 [WellFormed x, WellFormed y] n1 s) = Inr room
        \<and> matchesAllActive [x, y] room)"
proof
  show "getOrCreateRoomForParticipants e2 [a, b] n2
     (snd (getOrCreateRoomForParticipants e1 [a, b] n1 s))
   = getOrCreateRoomForParticipants e1 [a, b] n1 s"
    by (rule getOrCreate_again) simp
next
  show "\<exists>room. fst (getOrCreateRoomForParticipants e1 [WellFormed x, WellFormed y] n1 s) = Inr room
        \<and> matchesAllActive [x, y] room"
  proof (cases "find (matchesAllActive [x, y]) (rooms s)")
    case None
    then show ?thesis
      by (simp add: getOrCreateRoomForParticipants_def split_beta insertRoom_def Let_def
          matchesAllActive_def defaultIsActive_def)
  next
    case (Some r)
    then have "matchesAllActive [x, y] r" by (auto simp: find_Some_iff)
    with Some show ?thesis
      by (simp add: getOrCreateRoomForParticipants_def)
  qed
qed

text \<open>
  Claim C7.  \<open>sendMessage\<close> fails with the NotFound error, and writes nothing, when the
  room identifier is malformed and when it is well formed but no room has it;
  \<open>getMessages\<close> on a malformed identifier returns the empty sequence and no error; on a
  well-formed identifier it returns exactly the messages of that room, ascending by
  creation time.
\<close>

theorem chat_room_errors_and_messages:
  "sendMessage e sender \<lparr>roomId = Malformed str, content = c\<rparr> s
     = (Inl (NotFoundException ''Sala nao encontrada''), s)
   \<and> (oid \<notin> r_id ` set (rooms s) \<longrightarrow>
        sendMessage e sender \<lparr>roomId = WellFormed oid, content = c\<rparr> s
          = (Inl (NotFoundException ''Sala nao encontrada''), s))
   \<and> getMessages (Malformed str) s = Inr []
   \<and> (\<exists>ms. getMessages (WellFormed oid) s = Inr ms
         \<and> sorted (map m_createdAt ms)
         \<and> mset ms = mset (filter (\<lambda>m. m_roomId m = oid) (messages s)))"
proof -
  have "oid \<notin> r_id ` set (rooms s) \<Longrightarrow> find (\<lambda>r. r_id r = oid) (rooms s) = None"
    by (auto simp: find_None_iff)
  then show ?thesis
    by (auto simp: sendMessage_def getMessages_def findRoomById_def)
qed

theorem chat_room_errors_and_messages_witness:
  "301 \<notin> r_id ` set (rooms exampleChatDb)
   \<and> sendMessage exampleEnv (WellFormed 30) \<lparr>roomId = WellFormed 301, content = ''oi''\<rparr>
         exampleChatDb
       = (Inl (NotFoundException ''Sala nao encontrada''), exampleChatDb)
   \<and> sendMessage exampleEnv (WellFormed 30) \<lparr>roomId = Malformed ''xyz'', content = ''oi''\<rparr>
         exampleChatDb
       = (Inl (NotFoundException ''Sala nao encontrada''), exampleChatDb)
   \<and> getMessages (Malformed ''xyz'') exampleChatDb = Inr []"
proof -
  have h: "301 \<notin> r_id ` set (rooms exampleChatDb)"
    by (simp add: exampleChatDb_def)
  show ?thesis
    using h chat_room_errors_and_messages
      [of exampleEnv "WellFormed 30" "''xyz''" "''oi''" exampleChatDb 301]
    by simp
qed

text \<open>On the example, room 300 has its three messages back in the order of their times.\<close>

lemma getMessages_example:
  "map_sum id (map m_id) (getMessages (WellFormed 300) exampleChatDb) = Inr [401, 403, 400]"
  by (simp add: getMessages_def exampleChatDb_def exampleMessage_def)

section \<open>Creating an appointment\<close>

lemma getOrCreate_keeps_appointments:
  "appointments (snd (getOrCreateRoomForParticipants e is n s)) = appointments s"
  by (simp add: getOrCreateRoomForParticipants_def insertRoom_def Let_def
      split: sum.splits option.splits)

lemma provisionRoom_keeps_appointments:
  "appointments (snd (provisionRoom e dto s)) = appointments s"
  by (simp add: provisionRoom_def Let_def split_beta getOrCreate_keeps_appointments
      split: sum.splits option.splits prod.splits)

text \<open>Without a user on one of the two sides the \<open>try\<close> block leaves the state as it is.\<close>

lemma provisionRoom_no_link:
  assumes "find (\<lambda>p. p_id p = petOid) (pets s) = Some p"
      and "find (\<lambda>p. pr_id p = provOid) (providers s) = Some prov"
      and "dto_pet dto = WellFormed petOid" "dto_provider dto = WellFormed provOid"
      and "pr_userId prov = None \<or> (\<forall>u. tutorUserIdOf e (Some p) \<noteq> Inr (Some u))"
  shows "snd (provisionRoom e dto s) = s"
  using assms
  by (auto simp: provisionRoom_def Let_def split: sum.splits option.splits)

lemma provisionRoom_lookup_error:
  assumes "find (\<lambda>p. p_id p = petOid) (pets s) = Some p"
      and "dto_pet dto = WellFormed petOid" "dto_provider dto = WellFormed provOid"
      and "tutorUserIdOf e (Some p) = Inl err"
  shows "provisionRoom e dto s = (Inl err, s)"
  using assms by (simp add: provisionRoom_def Let_def)

text \<open>The write of \<open>create\<close> is refused when the date or the status is not valid.\<close>

lemma create_refused:
  assumes "find (\<lambda>p. p_id p = petOid) (pets s) = Some p"
      and "find (\<lambda>p. pr_id p = provOid) (providers s) = Some prov"
      and "dto_pet dto = WellFormed petOid" "dto_provider dto = WellFormed provOid"
      and "\<not> (validDate (parseDate e (dto_dateTime dto)) \<and> validStatus e (status dto))"
  shows "create e dto s = (Inl ValidationError, s)"
  using assms
  by (auto simp: create_def assertPet_def assertProvider_def Let_def)

lemma create_accepted:
  assumes pet: "find (\<lambda>p. p_id p = petOid) (pets s) = Some p"
      and prov: "find (\<lambda>p. pr_id p = provOid) (providers s) = Some prov"
      and dto: "dto_pet dto = WellFormed petOid" "dto_provider dto = WellFormed provOid"
      and valid: "validDate (parseDate e (dto_dateTime dto))" "validStatus e (status dto)"
  shows "\<exists>created s'. create e dto s = (Inr created, s')
           \<and> a_id created = nextId s \<and> a_pet created = petOid \<and> a_provider created = provOid
           \<and> appointments s' = appointments s @ [created]
           \<and> (pr_userId prov = None \<or> (\<forall>u. tutorUserIdOf e (Some p) \<noteq> Inr (Some u))
                \<longrightarrow> rooms s' = rooms s)
           \<and> (\<forall>err. tutorUserIdOf e (Some p) = Inl err
                \<longrightarrow> console s' = console s @ [LogError err])"
proof -
  define created where "created =
     \<lparr>service = service dto, duration = duration dto, reason = reason dto,
      location = location dto, price = price dto, status = status dto,
      a_notes = a_notes dto, email = email dto, phone = phone dto,
      a_id = nextId s, a_pet = petOid, a_provider = provOid,
      dateTime = parseDate e (dto_dateTime dto), isRated = None,
      createdAt = clock e, updatedAt = clock e\<rparr>"
  define s1 where "s1 = s\<lparr>appointments := appointments s @ [created], nextId := Suc (nextId s)\<rparr>"
  define r where "r = fst (provisionRoom e dto s1)"
  define s2 where "s2 = snd (provisionRoom e dto s1)"
  define s' where "s' = (case r of Inl err \<Rightarrow> s2\<lparr>console := console s2 @ [LogError err]\<rparr>
                          | Inr _ \<Rightarrow> s2)"
  have pet1: "find (\<lambda>p. p_id p = petOid) (pets s1) = Some p"
    and prov1: "find (\<lambda>p. pr_id p = provOid) (providers s1) = Some prov"
    using pet prov by (simp_all add: s1_def)
  have c: "create e dto s = (Inr created, s')"
    unfolding s'_def r_def s2_def s1_def created_def
    using pet prov dto valid
    by (simp add: create_def assertPet_def assertProvider_def Let_def split_beta)
  have a2: "appointments s2 = appointments s @ [created]"
    unfolding s2_def by (simp add: provisionRoom_keeps_appointments s1_def)
  have a: "appointments s' = appointments s @ [created]"
    using a2 by (simp add: s'_def split: sum.splits)
  have rooms: "rooms s' = rooms s"
    if "pr_userId prov = None \<or> (\<forall>u. tutorUserIdOf e (Some p) \<noteq> Inr (Some u))"
  proof -
    have "s2 = s1" unfolding s2_def using pet1 prov1 dto that by (rule provisionRoom_no_link)
    then show ?thesis by (simp add: s'_def s1_def split: sum.splits)
  qed
  have logged: "console s' = console s @ [LogError err]"
    if "tutorUserIdOf e (Some p) = Inl err" for err
  proof -
    have "provisionRoom e dto s1 = (Inl err, s1)"
      using pet1 dto that by (rule provisionRoom_lookup_error)
    then show ?thesis by (simp add: s'_def r_def s2_def s1_def)
  qed
  show ?thesis
    using c a rooms logged by (auto simp: created_def)
qed

text \<open>
  Claim C1, as the code has it.  When the pet and the provider of a creation input exist
  (\<open>p\<close> and \<open>prov\<close> are the stored records) and the store accepts the record (its date is
  a valid date and its status, if any, is of the enumeration), \<open>create\<close> returns the
  created appointment, never an error, and the appointment is appended to the collection,
  whatever the tutor service answers or throws.  When the provider has no user, or the
  tutor lookup gives no user (no tutor on the pet, no such tutor, a tutor without user, or
  an exception), the rooms are unchanged; an exception of the tutor lookup is written to
  the console and goes no further.  When the store refuses the record, \<open>create\<close> fails
  with the validation error and nothing is written, although both references exist.
\<close>

theorem create_returns_despite_room_failure:
  assumes pet: "find (\<lambda>p. p_id p = petOid) (pets s) = Some p"
      and prov: "find (\<lambda>p. pr_id p = provOid) (providers s) = Some prov"
      and dto: "dto_pet dto = WellFormed petOid" "dto_provider dto = WellFormed provOid"
  shows "(validDate (parseDate e (dto_dateTime dto)) \<and> validStatus e (status dto) \<longrightarrow>
          (\<exists>created s'. create e dto s = (Inr created, s')
             \<and> a_id created = nextId s \<and> a_pet created = petOid \<and> a_provider created = provOid
             \<and> appointments s' = appointments s @ [created]
             \<and> (pr_userId prov = None \<or> (\<forall>u. tutorUserIdOf e (Some p) \<noteq> Inr (Some u))
                  \<longrightarrow> rooms s' = rooms s)
             \<and> (\<forall>err. tutorUserIdOf e (Some p) = Inl err
                  \<longrightarrow> console s' = console s @ [LogError err])))
         \<and> (\<not> (validDate (parseDate e (dto_dateTime dto)) \<and> validStatus e (status dto)) \<longrightarrow>
              create e dto s = (Inl ValidationError, s))"
proof (intro conjI impI)
  assume "validDate (parseDate e (dto_dateTime dto)) \<and> validStatus e (status dto)"
  then have v: "validDate (parseDate e (dto_dateTime dto))" "validStatus e (status dto)"
    by simp_all
  show "\<exists>created s'. create e dto s = (Inr created, s')
             \<and> a_id created = nextId s \<and> a_pet created = petOid \<and> a_provider created = provOid
             \<and> appointments s' = appointments s @ [created]
             \<and> (pr_userId prov = None \<or> (\<forall>u. tutorUserIdOf e (Some p) \<noteq> Inr (Some u))
                  \<longrightarrow> rooms s' = rooms s)
             \<and> (\<forall>err. tutorUserIdOf e (Some p) = Inl err
                  \<longrightarrow> console s' = console s @ [LogError err])"
    using pet prov dto v by (rule create_accepted)
next
  assume "\<not> (validDate (parseDate e (dto_dateTime dto)) \<and> validStatus e (status dto))"
  with pet prov dto show "create e dto s = (Inl ValidationError, s)"
    by (rule create_refused)
qed

text \<open>The claim as the spec states it fails: Rex (10) and the provider 40 exist, and an
  input for them whose date does not parse is rejected.\<close>

theorem create_invalid_date_counterexample:
  "assertPet (WellFormed 10) exampleDb = Inr ()
   \<and> assertProvider (WellFormed 40) exampleDb = Inr ()
   \<and> create exampleEnv ((exampleDto 10 40)\<lparr>dto_dateTime := ''not a date''\<rparr>) exampleDb
       = (Inl ValidationError, exampleDb)"
  by (simp add: create_def assertPet_def assertProvider_def validDate_def Let_def
      exampleDto_def exampleDb_def exampleEnv_def examplePets_def exampleProviders_def)

text \<open>The witness: Rex (10) has a tutor with a user, the provider 41 has no user; the
  input is accepted with its date and refused with another.\<close>

theorem create_returns_despite_room_failure_witness:
  "find (\<lambda>p. p_id p = 10) (pets exampleDb) = Some (examplePets ! 0)
   \<and> find (\<lambda>p. pr_id p = 41) (providers exampleDb) = Some (exampleProviders ! 1)
   \<and> pr_userId (exampleProviders ! 1) = None
   \<and> validDate (parseDate exampleEnv (dto_dateTime (exampleDto 10 41)))
   \<and> validStatus exampleEnv (status (exampleDto 10 41))
   \<and> (\<exists>created s'. create exampleEnv (exampleDto 10 41) exampleDb = (Inr created, s')
         \<and> a_id created = 200
         \<and> appointments s' = appointments exampleDb @ [created]
         \<and> rooms s' = rooms exampleDb)
   \<and> \<not> validDate (parseDate exampleEnv ''not a date'')
   \<and> create exampleEnv ((exampleDto 10 41)\<lparr>dto_dateTime := ''not a date''\<rparr>) exampleDb
       = (Inl ValidationError, exampleDb)"
proof -
  have h1: "find (\<lambda>p. p_id p = 10) (pets exampleDb) = Some (examplePets ! 0)"
    by (simp add: exampleDb_def examplePets_def)
  have h2: "find (\<lambda>p. pr_id p = 41) (providers exampleDb) = Some (exampleProviders ! 1)"
    by (simp add: exampleDb_def exampleProviders_def)
  have h3: "dto_pet (exampleDto 10 41) = WellFormed 10"
    and h4: "dto_provider (exampleDto 10 41) = WellFormed 41"
    by (simp_all add: exampleDto_def)
  have h3': "dto_pet ((exampleDto 10 41)\<lparr>dto_dateTime := ''not a date''\<rparr>) = WellFormed 10"
    and h4': "dto_provider ((exampleDto 10 41)\<lparr>dto_dateTime := ''not a date''\<rparr>) = WellFormed 41"
    by (simp_all add: exampleDto_def)
  have h5: "pr_userId (exampleProviders ! 1) = None"
    by (simp add: exampleProviders_def)
  have v1: "validDate (parseDate exampleEnv (dto_dateTime (exampleDto 10 41)))"
    by (simp add: validDate_def exampleEnv_def exampleDto_def)
  have v2: "validStatus exampleEnv (status (exampleDto 10 41))"
    by (simp add: validStatus_def exampleEnv_def exampleDto_def)
  have v3: "\<not> validDate (parseDate exampleEnv ''not a date'')"
    by (simp add: validDate_def exampleEnv_def)
  have n: "nextId exampleDb = 200" by (simp add: exampleDb_def)
  from create_returns_despite_room_failure [OF h1 h2 h3 h4, of exampleEnv]
       create_returns_despite_room_failure [OF h1 h2 h3' h4', of exampleEnv]
  show ?thesis using h1 h2 h5 v1 v2 v3 n by auto
qed

text \<open>On the example: a tutor lookup that throws (the tutor 20 is the only one the service
  knows; here the pet 12 points to tutor 21) is logged and the appointment is returned.\<close>

lemma create_example_lookup_throws:
  "tutorUserIdOf exampleEnv (Some \<lparr>p_id = 12, p_nome = None, p_tutorId = Some 21, p_species = None\<rparr>)
     = Inl (NotFoundException ''Tutor nao encontrado'')"
  by (simp add: tutorUserIdOf_def exampleEnv_def toString_def)

text \<open>On the example: with a user on both sides the room of the pair is created, named
  after the pet.\<close>

lemma create_example_room:
  "rooms (snd (create exampleEnv (exampleDto 10 40) exampleDb))
     = [\<lparr>r_id = 201, r_name = ''Atendimento - Rex'', r_participants = [31, 30],
         r_isActive = True, r_updatedAt = 176400000\<rparr>]"
  by (simp add: create_def assertPet_def assertProvider_def provisionRoom_def tutorUserIdOf_def
      getOrCreateRoomForParticipants_def insertRoom_def matchesAllActive_def defaultIsActive_def
      validDate_def validStatus_def
      toString_def exampleDto_def exampleDb_def exampleEnv_def examplePets_def
      exampleProviders_def exampleTutor_def Let_def)

section \<open>The pagination plan\<close>

text \<open>Below \<open>2 ^ 53\<close> every integer is a double, so rounding keeps it.\<close>

lemma expOf_small: "n < 2 ^ 53 \<Longrightarrow> expOf n = 0"
  by (simp add: expOf.simps)

lemma roundNat_small: "n < 2 ^ 53 \<Longrightarrow> roundNat n = n"
  by (simp add: roundNat_def expOf_small)

lemma roundToDouble_exact:
  assumes "\<bar>n\<bar> < 2 ^ 53"
  shows "roundToDouble n = Num n"
proof (cases "n < 0")
  case True
  with assms have lt: "nat (- n) < 2 ^ 53" by (simp add: nat_less_iff)
  have "roundNat (nat (- n)) = nat (- n)" "expOf (nat (- n)) = 0"
    using lt by (simp_all add: roundNat_small expOf_small)
  with True show ?thesis by (simp add: roundToDouble_def Let_def)
next
  case False
  with assms have lt: "nat n < 2 ^ 53" by (simp add: nat_less_iff)
  have "roundNat (nat n) = nat n" "expOf (nat n) = 0"
    using lt by (simp_all add: roundNat_small expOf_small)
  with False show ?thesis by (simp add: roundToDouble_def Let_def)
qed

text \<open>A number that is not negative rounds to one that is not negative, or overflows.\<close>

lemma roundToDouble_nonneg:
  "0 \<le> n \<Longrightarrow> (\<exists>v. roundToDouble n = Num v \<and> 0 \<le> v) \<or> roundToDouble n = PlusInfinity"
  by (simp add: roundToDouble_def Let_def)

lemma parseInt_1: "parseInt ''1'' = Num 1"
  by (simp add: parseInt_def isWhite_def isDigit_def digitsVal_def digitVal_def
      roundToDouble_exact)

lemma parseInt_20: "parseInt ''20'' = Num 20"
  by (simp add: parseInt_def isWhite_def isDigit_def digitsVal_def digitVal_def
      roundToDouble_exact)

text \<open>
  Claim C3, as the code has it.  When the page of the query is absent (or empty) or parses
  to the integer \<open>p\<close> and the limit is absent (or empty) or parses to the integer \<open>l\<close>, an
  absent page counting as 1 and an absent limit as 20, the plan of \<open>findAll\<close> has the page
  \<open>max p 1\<close> and the limit \<open>l\<close> clamped to 1..100, and the envelope that \<open>findAll\<close>
  returns carries them; the skip is \<open>(page - 1) * limit\<close> exactly whenever that product is
  below \<open>2 ^ 53\<close>.  Beyond, the skip is what the arithmetic of the doubles gives.
\<close>

theorem pagination_plan:
  assumes pg: "(q_page q = None \<or> q_page q = Some []) \<and> p = 1
               \<or> (\<exists>str. q_page q = Some str \<and> str \<noteq> [] \<and> parseInt str = Num p)"
      and lm: "(q_limit q = None \<or> q_limit q = Some []) \<and> l = 20
               \<or> (\<exists>str. q_limit q = Some str \<and> str \<noteq> [] \<and> parseInt str = Num l)"
  shows "page_of q = Num (max p 1)
         \<and> limit_of q = Num (min (max l 1) 100)
         \<and> ((max p 1 - 1) * min (max l 1) 100 < 2 ^ 53 \<longrightarrow>
              skip_of q = Num ((max p 1 - 1) * min (max l 1) 100))
         \<and> 1 \<le> min (max l 1) 100 \<and> min (max l 1) 100 \<le> 100 \<and> 1 \<le> max p 1
         \<and> (\<forall>r s'. findAll e q s = (Inr r, s') \<longrightarrow>
               page r = JNumber (Num (max p 1)) \<and> limit r = JNumber (Num (min (max l 1) 100)))"
proof -
  have p: "parseInt (orDefault (q_page q) ''1'') = Num p"
    using pg parseInt_1 by (auto simp: orDefault_def)
  have l: "parseInt (orDefault (q_limit q) ''20'') = Num l"
    using lm parseInt_20 by (auto simp: orDefault_def)
  have pq: "page_of q = Num (max p 1)" by (simp add: page_of_def p)
  have lq: "limit_of q = Num (min (max l 1) 100)" by (simp add: limit_of_def l)
  have sq: "skip_of q = Num ((max p 1 - 1) * min (max l 1) 100)"
    if b: "(max p 1 - 1) * min (max l 1) 100 < 2 ^ 53"
  proof -
    let ?a = "max p 1 - 1" and ?c = "min (max l 1) 100"
    have a0: "0 \<le> ?a" and c1: "1 \<le> ?c" by simp_all
    have "?a * 1 \<le> ?a * ?c" using c1 a0 by (rule mult_left_mono)
    then have le: "?a \<le> ?a * ?c" by (simp only: mult_1_right)
    from le b have a53: "?a < 2 ^ 53" by (rule le_less_trans)
    have ac0: "0 \<le> ?a * ?c" using a0 c1 by simp
    have m: "roundToDouble ?a = Num ?a"
      using a0 a53 by (intro roundToDouble_exact) simp
    have t: "roundToDouble (?a * ?c) = Num (?a * ?c)"
      using ac0 b by (intro roundToDouble_exact) simp
    show ?thesis by (simp add: skip_of_def pq lq m t)
  qed
  have env: "page r = JNumber (Num (max p 1)) \<and> limit r = JNumber (Num (min (max l 1) 100))"
    if "findAll e q s = (Inr r, s')" for r s'
    using that unfolding findAll_def Let_def split_beta pq lq
    by (auto split: sum.splits)
  show ?thesis using pq lq sq env by auto
qed

text \<open>The claim as the spec states it fails: the page \<open>9007199254740992\<close> and the limit 3
  parse to these integers, and the skip is one less than \<open>(page - 1) * limit\<close>.\<close>

theorem pagination_plan_counterexample:
  "parseInt ''9007199254740992'' = Num 9007199254740992
   \<and> parseInt ''3'' = Num 3
   \<and> skip_of (emptyQuery\<lparr>q_page := Some ''9007199254740992'', q_limit := Some ''3''\<rparr>)
       = Num 27021597764222972
   \<and> (max 9007199254740992 1 - 1) * min (max 3 1) 100 = (27021597764222973 :: int)"
  by (simp add: skip_of_def page_of_def limit_of_def orDefault_def emptyQuery_def
      parseInt_def isWhite_def isDigit_def digitsVal_def digitVal_def
      roundToDouble_def roundNat_def expOf.simps)

text \<open>The witness: page \<open>3\<close> and limit \<open>500\<close> give page 3, limit 100 and skip 200.\<close>

theorem pagination_plan_witness:
  "parseInt ''3'' = Num 3 \<and> parseInt ''500'' = Num 500
   \<and> (max 3 1 - 1) * min (max 500 1) 100 < (2 ^ 53 :: int)
   \<and> page_of (emptyQuery\<lparr>q_page := Some ''3'', q_limit := Some ''500''\<rparr>) = Num 3
   \<and> limit_of (emptyQuery\<lparr>q_page := Some ''3'', q_limit := Some ''500''\<rparr>) = Num 100
   \<and> skip_of (emptyQuery\<lparr>q_page := Some ''3'', q_limit := Some ''500''\<rparr>) = Num 200"
proof -
  have h1: "parseInt ''3'' = Num 3"
    by (simp add: parseInt_def isWhite_def isDigit_def digitsVal_def digitVal_def
        roundToDouble_exact)
  have h2: "parseInt ''500'' = Num 500"
    by (simp add: parseInt_def isWhite_def isDigit_def digitsVal_def digitVal_def
        roundToDouble_exact)
  have b: "(max 3 1 - 1) * min (max 500 1) 100 < (2 ^ 53 :: int)" by simp
  have pg: "(q_page (emptyQuery\<lparr>q_page := Some ''3'', q_limit := Some ''500''\<rparr>) = None
             \<or> q_page (emptyQuery\<lparr>q_page := Some ''3'', q_limit := Some ''500''\<rparr>) = Some [])
            \<and> (3::int) = 1
            \<or> (\<exists>str. q_page (emptyQuery\<lparr>q_page := Some ''3'', q_limit := Some ''500''\<rparr>) = Some str
                  \<and> str \<noteq> [] \<and> parseInt str = Num 3)"
    using h1 by simp
  have lm: "(q_limit (emptyQuery\<lparr>q_page := Some ''3'', q_limit := Some ''500''\<rparr>) = None
             \<or> q_limit (emptyQuery\<lparr>q_page := Some ''3'', q_limit := Some ''500''\<rparr>) = Some [])
            \<and> (500::int) = 20
            \<or> (\<exists>str. q_limit (emptyQuery\<lparr>q_page := Some ''3'', q_limit := Some ''500''\<rparr>) = Some str
                  \<and> str \<noteq> [] \<and> parseInt str = Num 500)"
    using h2 by simp
  from pagination_plan [OF pg lm] show ?thesis using h1 h2 b by simp
qed

text \<open>The defaults on the example: no page and no limit give page 1, limit 20, skip 0.\<close>

lemma pagination_defaults_example:
  "page_of emptyQuery = Num 1 \<and> limit_of emptyQuery = Num 20 \<and> skip_of emptyQuery = Num 0"
  by (simp add: page_of_def limit_of_def skip_of_def emptyQuery_def orDefault_def
      parseInt_1 parseInt_20 roundToDouble_exact)

text \<open>On the example: a page of 17 digits that is not a double parses to the nearest one,
  and white space before the digits, the code unit 160 included, is skipped.\<close>

lemma parseInt_examples:
  "parseInt ''9007199254740993'' = Num 9007199254740992
   \<and> parseInt [CHR 0xA0, CHR '' '', CHR ''-'', CHR ''1'', CHR ''2'', CHR ''x''] = Num (- 12)
   \<and> parseInt ''abc'' = NaN"
  by (simp add: parseInt_def isWhite_def isDigit_def digitsVal_def digitVal_def
      roundToDouble_def roundNat_def expOf.simps)

section \<open>Scoped listings\<close>

lemma truthy_iff: "truthy x \<longleftrightarrow> \<not> (x = None \<or> x = Some [])"
  by (cases x) auto

text \<open>
  Claim C5.  When the pet lookup returns the empty list for the tutor, \<open>findAllByTutorId\<close>
  returns the envelope with no items, total 0 and pages 0, with the page and the limit of
  the query as they were given (1 and 20 when absent or empty); the only change of the
  state is the line on the console: no read is issued on the appointment collection.
\<close>

theorem findAllByTutorId_no_pets:
  assumes "petsFindAllByTutor e tutorId = Inr []"
  shows "findAllByTutorId e tutorId q s =
           (Inr \<lparr>items = [], total = 0,
                 page = (if q_page q = None \<or> q_page q = Some [] then JNumber (Num 1)
                         else JString (the (q_page q))),
                 limit = (if q_limit q = None \<or> q_limit q = Some [] then JNumber (Num 20)
                          else JString (the (q_limit q))),
                 pages = JNumber (Num 0)\<rparr>,
            s\<lparr>console := console s @ [LogNoPets]\<rparr>)
         \<and> apptReads (snd (findAllByTutorId e tutorId q s)) = apptReads s"
  using assms by (simp add: findAllByTutorId_def orNumber_def truthy_iff)

theorem findAllByTutorId_no_pets_witness:
  "petsFindAllByTutor exampleEnv (WellFormed 21) = Inr []
   \<and> fst (findAllByTutorId exampleEnv (WellFormed 21) (emptyQuery\<lparr>q_page := Some ''2''\<rparr>) exampleDb)
       = Inr \<lparr>items = [], total = 0, page = JString ''2'', limit = JNumber (Num 20),
              pages = JNumber (Num 0)\<rparr>
   \<and> apptReads (snd (findAllByTutorId exampleEnv (WellFormed 21)
                        (emptyQuery\<lparr>q_page := Some ''2''\<rparr>) exampleDb)) = 0"
proof -
  have h: "petsFindAllByTutor exampleEnv (WellFormed 21) = Inr []"
    by (simp add: exampleEnv_def)
  have r: "apptReads exampleDb = 0" by (simp add: exampleDb_def)
  from findAllByTutorId_no_pets [OF h, of "emptyQuery\<lparr>q_page := Some ''2''\<rparr>" exampleDb]
  show ?thesis using h r by (simp add: emptyQuery_def)
qed

text \<open>
  Claim C10.  When the provider lookup finds no provider for the user,
  \<open>findAllByProviderUser\<close> returns the envelope with no items, total 0, page 1, the limit of
  the query as given (20 when absent or empty) and pages 1, and the state is unchanged: no
  read is issued.  The empty envelope of \<open>findAllByTutorId\<close> has pages 0 instead.
\<close>

theorem findAllByProviderUser_no_provider:
  assumes "providersFindOneByUserId e userId = Inr None"
  shows "findAllByProviderUser e userId q s =
           (Inr \<lparr>items = [], total = 0, page = JNumber (Num 1),
                 limit = (if q_limit q = None \<or> q_limit q = Some [] then JNumber (Num 20)
                          else JString (the (q_limit q))),
                 pages = JNumber (Num 1)\<rparr>, s)
         \<and> (petsFindAllByTutor e tutorId = Inr [] \<longrightarrow>
              map_sum id pages (fst (findAllByTutorId e tutorId q s)) = Inr (JNumber (Num 0)))"
  using assms
  by (simp add: findAllByProviderUser_def findAllByTutorId_def orNumber_def truthy_iff)

theorem findAllByProviderUser_no_provider_witness:
  "providersFindOneByUserId exampleEnv (WellFormed 77) = Inr None
   \<and> petsFindAllByTutor exampleEnv (WellFormed 21) = Inr []
   \<and> findAllByProviderUser exampleEnv (WellFormed 77) (emptyQuery\<lparr>q_limit := Some ''5''\<rparr>) exampleDb
       = (Inr \<lparr>items = [], total = 0, page = JNumber (Num 1), limit = JString ''5'',
               pages = JNumber (Num 1)\<rparr>, exampleDb)
   \<and> map_sum id pages
        (fst (findAllByTutorId exampleEnv (WellFormed 21) (emptyQuery\<lparr>q_limit := Some ''5''\<rparr>)
                exampleDb))
       = Inr (JNumber (Num 0))"
proof -
  have h1: "providersFindOneByUserId exampleEnv (WellFormed 77) = Inr None"
    by (simp add: exampleEnv_def)
  have h2: "petsFindAllByTutor exampleEnv (WellFormed 21) = Inr []"
    by (simp add: exampleEnv_def)
  from findAllByProviderUser_no_provider
         [OF h1, of "emptyQuery\<lparr>q_limit := Some ''5''\<rparr>" exampleDb "WellFormed 21"]
  show ?thesis using h1 h2 by (simp add: emptyQuery_def)
qed

text \<open>
  Claim C4.  For a tutor with at least one pet, when the base query on the tutor's pets
  returns \<open>result\<close> and the review lookup, asked for this tutor and the identifiers of the
  returned page, answers \<open>reviewedIds\<close>, \<open>findAllByTutorId\<close> returns the same documents in
  the same order, each with \<open>isReviewed\<close> true exactly when its identifier is among
  \<open>reviewedIds\<close>, and the total, the pages, the page and the limit of the base query.
\<close>

theorem findAllByTutorId_review_join:
  assumes pets: "petsFindAllByTutor e tutorId = Inr ps" "ps \<noteq> []"
      and base: "findAll e (q\<lparr>q_pet := Some (ManyPets (map (\<lambda>p. toString (p_id p)) ps))\<rparr>) s
                   = (Inr result, s1)"
      and rev: "findReviewedAppointments e tutorId
                   (map (\<lambda>a. toString (a_id (doc a))) (items result)) = Inr reviewedIds"
  shows "\<exists>r. findAllByTutorId e tutorId q s = (Inr r, s1)
           \<and> total r = total result \<and> pages r = pages result
           \<and> page r = page result \<and> limit r = limit result
           \<and> map doc (items r) = map doc (items result)
           \<and> (\<forall>it \<in> set (items r). isReviewed it \<longleftrightarrow> toString (a_id (doc it)) \<in> set reviewedIds)"
  using assms
  by (auto simp: findAllByTutorId_def Let_def withReviewStatus_def comp_def)

text \<open>The base query of the example's tutor (20, owner of Rex) and its outcome, latest
  date first.\<close>

lemma findAll_example_pets:
  "\<exists>result s1.
     findAll exampleEnv (emptyQuery\<lparr>q_pet := Some (ManyPets [WellFormed 10])\<rparr>) exampleDb
       = (Inr result, s1)
     \<and> map (\<lambda>a. a_id (doc a)) (items result) = [103, 101, 100, 102]
     \<and> total result = 4 \<and> pages result = JNumber (Num 1)"
  by (simp add: findAll_def buildFilter_def emptyQuery_def exampleDb_def exampleEnv_def
      dateFilterOf_def priceFilterOf_def findDocs_def countDocuments_def rejected_def nanBound_def
      matches_def pageSlice_def page_of_def limit_of_def skip_of_def sort_of_def orDefault_def
      parseInt_1 parseInt_20 roundToDouble_exact populate_def dateMs_def
      exampleAppointment_def Let_def)

theorem findAllByTutorId_review_join_witness:
  "petsFindAllByTutor exampleEnv (WellFormed 20) = Inr [examplePets ! 0]
   \<and> [examplePets ! 0] \<noteq> []
   \<and> (\<exists>r s1. findAllByTutorId exampleEnv (WellFormed 20) emptyQuery exampleDb = (Inr r, s1)
         \<and> total r = 4 \<and> pages r = JNumber (Num 1)
         \<and> map (\<lambda>it. (a_id (doc it), isReviewed it)) (items r)
             = [(103, False), (101, False), (100, True), (102, False)])"
proof -
  have h1: "petsFindAllByTutor exampleEnv (WellFormed 20) = Inr [examplePets ! 0]"
    by (simp add: exampleEnv_def examplePets_def)
  have h2: "[examplePets ! 0] \<noteq> []" by simp
  have ids: "map (\<lambda>p. toString (p_id p)) [examplePets ! 0] = [WellFormed 10]"
    by (simp add: examplePets_def toString_def)
  from findAll_example_pets obtain result s1 where
    base: "findAll exampleEnv (emptyQuery\<lparr>q_pet := Some (ManyPets [WellFormed 10])\<rparr>) exampleDb
             = (Inr result, s1)"
    and its: "map (\<lambda>a. a_id (doc a)) (items result) = [103, 101, 100, 102]"
    and tot: "total result = 4" "pages result = JNumber (Num 1)"
    by auto
  have its': "map (\<lambda>a. toString (a_id (doc a))) (items result)
                = [WellFormed 103, WellFormed 101, WellFormed 100, WellFormed 102]"
  proof -
    have "map (\<lambda>a. toString (a_id (doc a))) (items result)
            = map WellFormed (map (\<lambda>a. a_id (doc a)) (items result))"
      by (simp add: toString_def comp_def)
    then show ?thesis by (simp add: its)
  qed
  have rev: "findReviewedAppointments exampleEnv (WellFormed 20)
               (map (\<lambda>a. toString (a_id (doc a))) (items result)) = Inr [WellFormed 100]"
    by (simp add: its' exampleEnv_def)
  from findAllByTutorId_review_join [OF h1 h2 base [folded ids] rev]
  obtain r where
    r: "findAllByTutorId exampleEnv (WellFormed 20) emptyQuery exampleDb = (Inr r, s1)"
       "total r = total result" "pages r = pages result"
       "map doc (items r) = map doc (items result)"
       "\<forall>it \<in> set (items r). isReviewed it \<longleftrightarrow> toString (a_id (doc it)) \<in> set [WellFormed 100]"
    by blast
  have idr: "map (\<lambda>it. a_id (doc it)) (items r) = [103, 101, 100, 102]"
  proof -
    have "map (\<lambda>it. a_id (doc it)) (items r) = map a_id (map doc (items r))"
      by (simp add: comp_def)
    also have "\<dots> = map a_id (map doc (items result))" by (simp only: r(4))
    also have "\<dots> = [103, 101, 100, 102]" using its by (simp add: comp_def)
    finally show ?thesis .
  qed
  have flag: "isReviewed it \<longleftrightarrow> a_id (doc it) = 100" if "it \<in> set (items r)" for it
    using r(5) that by (simp add: toString_def)
  have "map (\<lambda>it. (a_id (doc it), isReviewed it)) (items r)
          = map (\<lambda>it. (a_id (doc it), a_id (doc it) = 100)) (items r)"
    using flag by (simp cong: map_cong)
  also have "\<dots> = map (\<lambda>i. (i, i = 100)) (map (\<lambda>it. a_id (doc it)) (items r))"
    by (simp add: comp_def)
  also have "\<dots> = [(103, False), (101, False), (100, True), (102, False)]"
    by (simp add: idr)
  finally have fl: "map (\<lambda>it. (a_id (doc it), isReviewed it)) (items r)
          = [(103, False), (101, False), (100, True), (102, False)]" .
  show ?thesis using h1 h2 r(1,2,3) tot fl by auto
qed

section \<open>Today's counters\<close>



text \<open>On the example (the third of January 1970, UTC) the window runs from 172800000 to
  259200000; of the four appointments of provider 40, the one at 23:59:59 of the second and
  the one at 00:00:00 of the fourth are outside, the cancelled one does not count.\<close>

lemma countAppointmentsForToday_example:
  "startOfToday exampleEnv = 172800000 \<and> endOfToday exampleEnv = 259200000
   \<and> fst (countAppointmentsForToday exampleEnv (WellFormed 40) exampleDb)
       = Inr \<lparr>c_total = 1, c_confirmed = 1\<rparr>"
  by (simp add: countAppointmentsForToday_def countDocuments_def rejected_def nanBound_def
      Let_def matches_def inRange_def startOfToday_def endOfToday_def exampleEnv_def
      exampleDb_def exampleAppointment_def)

section \<open>Status updates\<close>

lemma updateFirst_index:
  "\<exists>x \<in> set xs. P x \<Longrightarrow>
   \<exists>i < length xs. P (xs ! i) \<and> (\<forall>f. updateFirst P f xs = xs[i := f (xs ! i)])"
proof (induction xs)
  case Nil
  then show ?case by simp
next
  case (Cons x xs)
  show ?case
  proof (cases "P x")
    case True
    then have "P ((x # xs) ! 0) \<and> (\<forall>f. updateFirst P f (x # xs) = (x # xs)[0 := f ((x # xs) ! 0)])"
      by simp
    then show ?thesis by blast
  next
    case False
    with Cons.prems have "\<exists>x \<in> set xs. P x" by auto
    from Cons.IH[OF this] obtain i where
      i: "i < length xs" "P (xs ! i)" "\<forall>f. updateFirst P f xs = xs[i := f (xs ! i)]" by blast
    with False have "Suc i < length (x # xs) \<and> P ((x # xs) ! Suc i)
        \<and> (\<forall>f. updateFirst P f (x # xs) = (x # xs)[Suc i := f ((x # xs) ! Suc i)])"
      by simp
    then show ?thesis by blast
  qed
qed

text \<open>
  Claim C9, as the code has it.  When an appointment has the identifier \<open>oid\<close>,
  \<open>updateAppointmentStatus\<close> with a status of the enumeration returns without error and
  the new state is the old one with one appointment of that identifier, at some position
  \<open>i\<close>, replaced by itself with the status set and its updated timestamp at the clock: its
  other fields, the other appointments and the other collections are as before; with a
  rated flag it is the same for \<open>isRated\<close>.  When the identifier is well formed, the update
  valid and no appointment has the identifier, it fails with the NotFound error and the
  state is unchanged.  A malformed identifier fails with the cast error of the store, and a
  status outside the enumeration with its validation error, both with the state unchanged.
\<close>

theorem updateAppointmentStatus_frame:
  "(oid \<in> a_id ` set (appointments s) \<longrightarrow>
      (\<exists>i < length (appointments s). a_id (appointments s ! i) = oid
         \<and> (st \<in> set (statusEnum e) \<longrightarrow>
              updateAppointmentStatus e (WellFormed oid) (SetStatus st) s
                = (Inr (), s\<lparr>appointments :=
                     (appointments s)[i := (appointments s ! i)
                        \<lparr>status := Some st, updatedAt := clock e\<rparr>]\<rparr>))
         \<and> updateAppointmentStatus e (WellFormed oid) (SetIsRated b) s
             = (Inr (), s\<lparr>appointments :=
                  (appointments s)[i := (appointments s ! i)
                     \<lparr>isRated := Some b, updatedAt := clock e\<rparr>]\<rparr>)))
   \<and> (oid \<notin> a_id ` set (appointments s) \<and> validUpdate e u \<longrightarrow>
        updateAppointmentStatus e (WellFormed oid) u s
          = (Inl (NotFoundException ''Agendamento nao encontrado para atualizacao de status.''), s))
   \<and> updateAppointmentStatus e (Malformed str) u s = (Inl CastError, s)
   \<and> (st \<notin> set (statusEnum e) \<longrightarrow>
        updateAppointmentStatus e (WellFormed oid) (SetStatus st) s = (Inl ValidationError, s))"
proof (intro conjI impI)
  assume "oid \<in> a_id ` set (appointments s)"
  then have ex: "\<exists>a \<in> set (appointments s). a_id a = oid" by auto
  then have "find (\<lambda>a. a_id a = oid) (appointments s) \<noteq> None"
    by (auto simp: find_None_iff)
  then obtain a where f: "find (\<lambda>a. a_id a = oid) (appointments s) = Some a" by blast
  from updateFirst_index[OF ex] obtain i where
    i: "i < length (appointments s)" "a_id (appointments s ! i) = oid"
       "\<forall>f. updateFirst (\<lambda>a. a_id a = oid) f (appointments s)
              = (appointments s)[i := f (appointments s ! i)]" by blast
  show "\<exists>i < length (appointments s). a_id (appointments s ! i) = oid
         \<and> (st \<in> set (statusEnum e) \<longrightarrow>
              updateAppointmentStatus e (WellFormed oid) (SetStatus st) s
                = (Inr (), s\<lparr>appointments :=
                     (appointments s)[i := (appointments s ! i)
                        \<lparr>status := Some st, updatedAt := clock e\<rparr>]\<rparr>))
         \<and> updateAppointmentStatus e (WellFormed oid) (SetIsRated b) s
             = (Inr (), s\<lparr>appointments :=
                  (appointments s)[i := (appointments s ! i)
                     \<lparr>isRated := Some b, updatedAt := clock e\<rparr>]\<rparr>)"
    using i f
    by (intro exI[of _ i]) (simp add: updateAppointmentStatus_def validStatus_def)
next
  assume "oid \<notin> a_id ` set (appointments s) \<and> validUpdate e u"
  then have "find (\<lambda>a. a_id a = oid) (appointments s) = None" and "validUpdate e u"
    by (auto simp: find_None_iff)
  then show "updateAppointmentStatus e (WellFormed oid) u s
          = (Inl (NotFoundException ''Agendamento nao encontrado para atualizacao de status.''), s)"
    by (simp add: updateAppointmentStatus_def)
next
  show "updateAppointmentStatus e (Malformed str) u s = (Inl CastError, s)"
    by (simp add: updateAppointmentStatus_def)
next
  assume "st \<notin> set (statusEnum e)"
  then show "updateAppointmentStatus e (WellFormed oid) (SetStatus st) s
               = (Inl ValidationError, s)"
    by (simp add: updateAppointmentStatus_def validStatus_def)
qed

text \<open>The claim as the spec states it fails: cancelling the appointment 100 also rewrites
  its updated timestamp, and for the malformed identifier \<open>abc\<close>, which no appointment
  has, the failure is the cast error, not NotFound.\<close>

theorem updateAppointmentStatus_counterexample:
  "map updatedAt (appointments exampleDb) = [0, 0, 0, 0]
   \<and> map updatedAt
        (appointments
           (snd (updateAppointmentStatus exampleEnv (WellFormed 100) (SetStatus ''cancelled'')
                   exampleDb)))
       = [176400000, 0, 0, 0]
   \<and> fst (updateAppointmentStatus exampleEnv (Malformed ''abc'') (SetStatus ''cancelled'')
             exampleDb)
       = Inl CastError"
  by (simp add: updateAppointmentStatus_def validStatus_def exampleDb_def exampleEnv_def
      exampleAppointment_def)

theorem updateAppointmentStatus_frame_witness:
  "100 \<in> a_id ` set (appointments exampleDb)
   \<and> ''cancelled'' \<in> set (statusEnum exampleEnv)
   \<and> (\<exists>i < length (appointments exampleDb). a_id (appointments exampleDb ! i) = 100
         \<and> updateAppointmentStatus exampleEnv (WellFormed 100) (SetStatus ''cancelled'') exampleDb
             = (Inr (), exampleDb\<lparr>appointments :=
                  (appointments exampleDb)
                    [i := (appointments exampleDb ! i)
                       \<lparr>status := Some ''cancelled'', updatedAt := clock exampleEnv\<rparr>]\<rparr>))
   \<and> 999 \<notin> a_id ` set (appointments exampleDb)
   \<and> validUpdate exampleEnv (SetStatus ''cancelled'')
   \<and> updateAppointmentStatus exampleEnv (WellFormed 999) (SetStatus ''cancelled'') exampleDb
       = (Inl (NotFoundException ''Agendamento nao encontrado para atualizacao de status.''),
          exampleDb)
   \<and> ''done'' \<notin> set (statusEnum exampleEnv)
   \<and> updateAppointmentStatus exampleEnv (WellFormed 100) (SetStatus ''done'') exampleDb
       = (Inl ValidationError, exampleDb)"
proof -
  have h1: "100 \<in> a_id ` set (appointments exampleDb)"
    by (simp add: exampleDb_def exampleAppointment_def)
  have h2: "999 \<notin> a_id ` set (appointments exampleDb)"
    by (simp add: exampleDb_def exampleAppointment_def)
  have h3: "''cancelled'' \<in> set (statusEnum exampleEnv)"
    by (simp add: exampleEnv_def)
  have h4: "validUpdate exampleEnv (SetStatus ''cancelled'')"
    by (simp add: validStatus_def exampleEnv_def)
  have h5: "''done'' \<notin> set (statusEnum exampleEnv)"
    by (simp add: exampleEnv_def)
  show ?thesis
    using h1 h2 h3 h4 h5
      updateAppointmentStatus_frame
        [of 100 exampleDb "''cancelled''" exampleEnv True "SetStatus ''cancelled''" "''x''"]
      updateAppointmentStatus_frame
        [of 999 exampleDb "''cancelled''" exampleEnv True "SetStatus ''cancelled''" "''x''"]
      updateAppointmentStatus_frame
        [of 100 exampleDb "''done''" exampleEnv True "SetStatus ''cancelled''" "''x''"]
    by blast
qed

text \<open>On the example: cancelling the appointment 100 changes its status and its updated
  timestamp and nothing else.\<close>

lemma updateAppointmentStatus_example:
  "snd (updateAppointmentStatus exampleEnv (WellFormed 100) (SetStatus ''cancelled'') exampleDb)
     = exampleDb\<lparr>appointments :=
         (exampleAppointment 100 180000000 ''cancelled'')\<lparr>updatedAt := 176400000\<rparr>
           # tl (appointments exampleDb)\<rparr>"
  by (simp add: updateAppointmentStatus_def validStatus_def exampleDb_def exampleEnv_def
      exampleAppointment_def)

section \<open>Leniency of the query builder\<close>

text \<open>A malformed provider, when the field is not empty, throws before any query.\<close>

lemma findAll_malformed_provider:
  assumes "q_provider q = Some (Malformed str)" "str \<noteq> []"
  shows "findAll e q s = (Inl BSONError, s)"
  using assms by (simp add: findAll_def buildFilter_def)

lemma findAll_malformed_pet:
  assumes "q_provider q = None \<or> q_provider q = Some (Malformed [])
             \<or> (\<exists>oid. q_provider q = Some (WellFormed oid))"
      and "truthyPet (q_pet q)" "\<not> list_all isValid (petIdsOf (the (q_pet q)))"
  shows "findAll e q s = (Inl BSONError, s)"
proof -
  have "mapObjectId (petIdsOf (the (q_pet q))) = Inl BSONError"
    using assms(3) mapObjectId_cases by blast
  then show ?thesis
    using assms(1,2) by (auto simp: findAll_def buildFilter_def)
qed

text \<open>With identifiers that are absent, empty or well formed the filter is built.\<close>

lemma buildFilter_wellformed:
  assumes "q_provider q = None \<or> q_provider q = Some (Malformed [])
             \<or> (\<exists>oid. q_provider q = Some (WellFormed oid))"
      and "truthyPet (q_pet q) \<longrightarrow> list_all isValid (petIdsOf (the (q_pet q)))"
  shows "\<exists>flt. buildFilter e q = Inr flt
           \<and> f_or flt = (if truthy (q_q q) then q_q q else None)
           \<and> f_dateTime flt = dateFilterOf e q \<and> f_price flt = priceFilterOf e q"
proof (cases "truthyPet (q_pet q)")
  case True
  with assms(2) obtain ps where "mapObjectId (petIdsOf (the (q_pet q))) = Inr ps"
    using mapObjectId_cases by blast
  with True assms(1) show ?thesis by (auto simp: buildFilter_def)
next
  case False
  with assms(1) show ?thesis by (auto simp: buildFilter_def)
qed

text \<open>With a page and a limit that are numbers and a skip that does not overflow, the
  three numbers of the plan are finite, the limit between 1 and 100.\<close>

lemma plan_finite:
  assumes pg: "parseInt (orDefault (q_page q) ''1'') \<noteq> NaN"
      and lm: "parseInt (orDefault (q_limit q) ''20'') \<noteq> NaN"
      and sk: "skip_of q \<noteq> PlusInfinity"
  shows "\<exists>p l k. page_of q = Num p \<and> limit_of q = Num l \<and> 1 \<le> l \<and> l \<le> 100
           \<and> skip_of q = Num k"
proof -
  obtain l where l: "limit_of q = Num l" "1 \<le> l" "l \<le> 100"
    using lm by (cases "parseInt (orDefault (q_limit q) ''20'')") (auto simp: limit_of_def)
  have sg: "signOf (Num l) = 1" using l(2) by simp
  have pinf: "jsTimes PlusInfinity (Num l) = PlusInfinity" using sg by simp
  have fin: "\<exists>k. jsTimes (jsMinus (Num a) (Num 1)) (Num l) = Num k"
    if a: "1 \<le> a" and ne: "jsTimes (jsMinus (Num a) (Num 1)) (Num l) \<noteq> PlusInfinity" for a
  proof -
    have "0 \<le> a - 1" using a by simp
    from roundToDouble_nonneg[OF this] show ?thesis
    proof
      assume "\<exists>v. roundToDouble (a - 1) = Num v \<and> 0 \<le> v"
      then obtain v where v: "roundToDouble (a - 1) = Num v" "0 \<le> v" by blast
      have "0 \<le> v * l" using v(2) l(2) by simp
      from roundToDouble_nonneg[OF this] ne v(1) show ?thesis by auto
    next
      assume "roundToDouble (a - 1) = PlusInfinity"
      with ne pinf show ?thesis by simp
    qed
  qed
  show ?thesis
  proof (cases "parseInt (orDefault (q_page q) ''1'')")
    case (Num p)
    then have pq: "page_of q = Num (max p 1)" by (simp add: page_of_def)
    have "jsTimes (jsMinus (Num (max p 1)) (Num 1)) (Num l) \<noteq> PlusInfinity"
      using sk by (simp add: skip_of_def pq l(1))
    from fin[OF _ this] obtain k where "jsTimes (jsMinus (Num (max p 1)) (Num 1)) (Num l) = Num k"
      by auto
    then have "skip_of q = Num k" by (simp add: skip_of_def pq l(1))
    with pq l show ?thesis by blast
  next
    case NaN
    with pg show ?thesis by simp
  next
    case PlusInfinity
    then have "page_of q = PlusInfinity" by (simp add: page_of_def)
    then have "skip_of q = PlusInfinity" using pinf by (simp add: skip_of_def l(1))
    with sk show ?thesis by simp
  next
    case MinusInfinity
    then have pq: "page_of q = Num 1" by (simp add: page_of_def)
    have "jsTimes (jsMinus (Num 1) (Num 1)) (Num l) \<noteq> PlusInfinity"
      using sk by (simp add: skip_of_def pq l(1))
    from fin[OF _ this] obtain k where "jsTimes (jsMinus (Num 1) (Num 1)) (Num l) = Num k"
      by auto
    then have "skip_of q = Num k" by (simp add: skip_of_def pq l(1))
    with pq l show ?thesis by blast
  qed
qed

lemma findAll_runs:
  assumes flt: "buildFilter e q = Inr flt" "rejected e flt = None"
      and pg: "page_of q = Num p" "limit_of q = Num l" "skip_of q = Num k"
  shows "\<exists>r. findAll e q s = (Inr r, s\<lparr>apptReads := apptReads s + 2\<rparr>)
           \<and> total r = length (filter (matches e flt) (appointments s))
           \<and> length (items r) \<le> nat l"
  using assms
  by (simp add: findAll_def findDocs_def countDocuments_def pageSlice_def Let_def)

text \<open>
  Claim C2, as the code has it.  \<open>findAll\<close> returns a page envelope, after two reads, for
  every query whose provider and pet identifiers are absent, empty or well formed, whose
  page and limit are absent, empty or parse to numbers with a skip that does not overflow
  the doubles, whose date and price bounds are absent, empty or parse, and whose search
  pattern, when given, compiles; the status, the
  sort field and the ascending flag are free.  A provider identifier that is malformed and
  not empty, or a malformed pet identifier, makes it fail with the error of the ObjectId
  constructor before any read is issued.
\<close>

theorem findAll_envelope_or_rejection:
  "((q_provider q = None \<or> q_provider q = Some (Malformed [])
        \<or> (\<exists>oid. q_provider q = Some (WellFormed oid)))
      \<and> (truthyPet (q_pet q) \<longrightarrow> list_all isValid (petIdsOf (the (q_pet q))))
      \<and> parseInt (orDefault (q_page q) ''1'') \<noteq> NaN
      \<and> parseInt (orDefault (q_limit q) ''20'') \<noteq> NaN
      \<and> skip_of q \<noteq> PlusInfinity
      \<and> (truthy (q_from q) \<longrightarrow> parseDate e (the (q_from q)) \<noteq> NaN)
      \<and> (truthy (q_to q) \<longrightarrow> parseDate e (the (q_to q)) \<noteq> NaN)
      \<and> (truthy (q_minPrice q) \<longrightarrow> toNumber e (the (q_minPrice q)) \<noteq> NaN)
      \<and> (truthy (q_maxPrice q) \<longrightarrow> toNumber e (the (q_maxPrice q)) \<noteq> NaN)
      \<and> (truthy (q_q q) \<longrightarrow> regexCompile e (the (q_q q)) \<noteq> None)
    \<longrightarrow> (\<exists>r. findAll e q s = (Inr r, s\<lparr>apptReads := apptReads s + 2\<rparr>)
             \<and> total r \<le> length (appointments s) \<and> length (items r) \<le> 100))
   \<and> ((\<exists>str. str \<noteq> [] \<and> q_provider q = Some (Malformed str))
        \<or> (q_provider q = None \<or> q_provider q = Some (Malformed [])
              \<or> (\<exists>oid. q_provider q = Some (WellFormed oid)))
           \<and> truthyPet (q_pet q) \<and> \<not> list_all isValid (petIdsOf (the (q_pet q)))
    \<longrightarrow> findAll e q s = (Inl BSONError, s))"
proof (intro conjI impI)
  assume a: "(q_provider q = None \<or> q_provider q = Some (Malformed [])
        \<or> (\<exists>oid. q_provider q = Some (WellFormed oid)))
      \<and> (truthyPet (q_pet q) \<longrightarrow> list_all isValid (petIdsOf (the (q_pet q))))
      \<and> parseInt (orDefault (q_page q) ''1'') \<noteq> NaN
      \<and> parseInt (orDefault (q_limit q) ''20'') \<noteq> NaN
      \<and> skip_of q \<noteq> PlusInfinity
      \<and> (truthy (q_from q) \<longrightarrow> parseDate e (the (q_from q)) \<noteq> NaN)
      \<and> (truthy (q_to q) \<longrightarrow> parseDate e (the (q_to q)) \<noteq> NaN)
      \<and> (truthy (q_minPrice q) \<longrightarrow> toNumber e (the (q_minPrice q)) \<noteq> NaN)
      \<and> (truthy (q_maxPrice q) \<longrightarrow> toNumber e (the (q_maxPrice q)) \<noteq> NaN)
      \<and> (truthy (q_q q) \<longrightarrow> regexCompile e (the (q_q q)) \<noteq> None)"
  from a obtain flt where
    flt: "buildFilter e q = Inr flt" "f_or flt = (if truthy (q_q q) then q_q q else None)"
         "f_dateTime flt = dateFilterOf e q" "f_price flt = priceFilterOf e q"
    using buildFilter_wellformed [of q e] by blast
  have d: "\<not> nanBound (dateFilterOf e q)"
    using a by (simp add: nanBound_def dateFilterOf_def)
  have pr: "\<not> nanBound (priceFilterOf e q)"
    using a by (simp add: nanBound_def priceFilterOf_def)
  have rej: "rejected e flt = None"
  proof (cases "truthy (q_q q)")
    case True
    then obtain pat where pat: "q_q q = Some pat" by (cases "q_q q") auto
    with a True obtain test where "regexCompile e pat = Some test" by auto
    with True pat d pr flt show ?thesis by (simp add: rejected_def)
  next
    case False
    with d pr flt show ?thesis by (simp add: rejected_def)
  qed
  from a plan_finite [of q] obtain p l k where
    pq: "page_of q = Num p" and lq: "limit_of q = Num l" and l100: "l \<le> 100"
    and sq: "skip_of q = Num k"
    by blast
  from findAll_runs [OF flt(1) rej pq lq sq, of s] obtain r where
    r: "findAll e q s = (Inr r, s\<lparr>apptReads := apptReads s + 2\<rparr>)"
       "total r = length (filter (matches e flt) (appointments s))"
       "length (items r) \<le> nat l"
    by blast
  have "total r \<le> length (appointments s)" by (simp add: r(2))
  moreover have "length (items r) \<le> 100" using r(3) l100 by simp
  ultimately show "\<exists>r. findAll e q s = (Inr r, s\<lparr>apptReads := apptReads s + 2\<rparr>)
             \<and> total r \<le> length (appointments s) \<and> length (items r) \<le> 100"
    using r(1) by blast
next
  assume "(\<exists>str. str \<noteq> [] \<and> q_provider q = Some (Malformed str))
        \<or> (q_provider q = None \<or> q_provider q = Some (Malformed [])
              \<or> (\<exists>oid. q_provider q = Some (WellFormed oid)))
           \<and> truthyPet (q_pet q) \<and> \<not> list_all isValid (petIdsOf (the (q_pet q)))"
  then show "findAll e q s = (Inl BSONError, s)"
    using findAll_malformed_provider [of q _ e s] findAll_malformed_pet [of q e s] by blast
qed

text \<open>The claim as the spec states it fails: a malformed provider identifier is rejected.\<close>

theorem findAll_malformed_provider_counterexample:
  "fst (findAll exampleEnv (emptyQuery\<lparr>q_provider := Some (Malformed ''abc'')\<rparr>) exampleDb)
     = Inl BSONError"
  by (simp add: findAll_def buildFilter_def emptyQuery_def)

text \<open>The witness: a query on provider 40 with a status list, a page and a search term is
  answered; the same query with the provider \<open>abc\<close> is rejected.\<close>

theorem findAll_envelope_or_rejection_witness:
  "(\<exists>r. findAll exampleEnv
           (emptyQuery\<lparr>q_provider := Some (WellFormed 40),
                       q_status := Some (OneStatus ''pending,confirmed''),
                       q_q := Some ''vaccine'', q_page := Some ''1''\<rparr>) exampleDb
          = (Inr r, exampleDb\<lparr>apptReads := apptReads exampleDb + 2\<rparr>)
        \<and> total r \<le> length (appointments exampleDb) \<and> length (items r) \<le> 100)
   \<and> findAll exampleEnv
        (emptyQuery\<lparr>q_provider := Some (Malformed ''abc''),
                    q_status := Some (OneStatus ''pending,confirmed''),
                    q_q := Some ''vaccine'', q_page := Some ''1''\<rparr>) exampleDb
       = (Inl BSONError, exampleDb)"
proof -
  have one: "parseInt ''1'' \<noteq> NaN" by (simp add: parseInt_1)
  have twenty: "parseInt ''20'' \<noteq> NaN" by (simp add: parseInt_20)
  have sk: "skip_of (emptyQuery\<lparr>q_provider := Some (WellFormed 40),
                       q_status := Some (OneStatus ''pending,confirmed''),
                       q_q := Some ''vaccine'', q_page := Some ''1''\<rparr>) \<noteq> PlusInfinity"
    by (simp add: skip_of_def page_of_def limit_of_def orDefault_def emptyQuery_def
        parseInt_1 parseInt_20 roundToDouble_exact)
  have pat: "regexCompile exampleEnv ''vaccine'' \<noteq> None"
    by (simp add: exampleEnv_def exampleRegex_def isLetter_def isDigit_def)
  show ?thesis
    using one twenty sk pat
      findAll_envelope_or_rejection
        [of "emptyQuery\<lparr>q_provider := Some (WellFormed 40),
                       q_status := Some (OneStatus ''pending,confirmed''),
                       q_q := Some ''vaccine'', q_page := Some ''1''\<rparr>" exampleEnv exampleDb]
      findAll_envelope_or_rejection
        [of "emptyQuery\<lparr>q_provider := Some (Malformed ''abc''),
                       q_status := Some (OneStatus ''pending,confirmed''),
                       q_q := Some ''vaccine'', q_page := Some ''1''\<rparr>" exampleEnv exampleDb]
    by (simp add: emptyQuery_def orDefault_def)
qed

text \<open>On the example: the answered query finds the three appointments of provider 40
  whose status is pending or confirmed, latest date first; and a page that is not a number
  becomes \<open>NaN\<close>, and so does the skip.\<close>

lemma findAll_example_status:
  "map_sum id (\<lambda>r. (map (\<lambda>a. a_id (doc a)) (items r), total r, page r, limit r, pages r))
     (fst (findAll exampleEnv
             (emptyQuery\<lparr>q_provider := Some (WellFormed 40),
                         q_status := Some (OneStatus ''pending,confirmed''),
                         q_q := Some ''vaccine'', q_page := Some ''1''\<rparr>) exampleDb))
   = Inr ([103, 100, 102], 3, JNumber (Num 1), JNumber (Num 20), JNumber (Num 1))"
  by (simp add: findAll_def buildFilter_def emptyQuery_def exampleDb_def exampleEnv_def
      dateFilterOf_def priceFilterOf_def findDocs_def countDocuments_def rejected_def nanBound_def
      matches_def regexField_def pageSlice_def page_of_def limit_of_def skip_of_def sort_of_def
      orDefault_def parseInt_1 parseInt_20 roundToDouble_exact populate_def dateMs_def
      exampleRegex_def isLetter_def isDigit_def lowerChar_def
      exampleAppointment_def Let_def)

lemma page_not_a_number_example:
  "page_of (emptyQuery\<lparr>q_page := Some ''abc''\<rparr>) = NaN
   \<and> skip_of (emptyQuery\<lparr>q_page := Some ''abc''\<rparr>) = NaN"
  by (simp add: page_of_def skip_of_def limit_of_def emptyQuery_def orDefault_def
      parseInt_def isWhite_def isDigit_def digitsVal_def digitVal_def parseInt_20)

end
